theory Spec2Isabelle
  imports Complex_Main "HOL-Library.AList"
begin

section \<open>Python and framework values\<close>

text \<open>
  The models of \<open>app_altavista\<close> are Django model classes whose business rules are
  ordinary Python methods. A method is embedded as a function that takes the instance
  (\<open>self\<close>), the database and, where the method reads the clock, the value of
  \<open>timezone.now()\<close>, and that returns what the call produced together with the instance
  and the database as the call left them. An exception does not undo the assignments
  made before it, so the state is returned next to the exception as well.

  \<^item> A \<open>Decimal\<close> in memory is a rational: the amounts of the methods below keep every
    product, quotient by 100 and sum inside the 28 digits of the default decimal context,
    so the arithmetic of an object in memory is exact. A table keeps a number as it was
    written; what a later read of a \<open>DecimalField(max_digits=12, decimal_places=2)\<close>
    column gives for it is the number rounded to two places (\<open>columna_12_2\<close> below).
  \<^item> \<open>CharField\<close> and \<open>TextField\<close> values are strings, one \<open>char\<close> for each code point
    (the accented letters of the source's literals are written by their code point).
  \<^item> Nullable columns and optional arguments are \<open>option\<close>s.
  \<^item> Columns that no embedded method reads or writes, and the columns the framework
    fills on insert (\<open>auto_now_add\<close>), are left out of the records.
\<close>

datatype error =
  ValueError | TypeError | OverflowError | DoesNotExist | IntegrityError | InvalidOperation

subsection \<open>\<open>datetime.date\<close>, \<open>datetime.time\<close> and \<open>datetime.datetime\<close>\<close>

record date =
  year :: int
  month :: int
  day :: int

text \<open>A naive time of day, as its number of microseconds since midnight: times compare
  by hour, minute, second and microsecond, which is the order of these numbers.\<close>

type_synonym time = nat

type_synonym datetime = "date \<times> time"

definition hm :: "nat \<Rightarrow> nat \<Rightarrow> time" where
  "hm h m = (h * 60 + m) * 60 * 1000000"

definition is_leap :: "int \<Rightarrow> bool" where
  "is_leap y = (y mod 4 = 0 \<and> (y mod 100 \<noteq> 0 \<or> y mod 400 = 0))"

definition days_in_month :: "int \<Rightarrow> int \<Rightarrow> int" where
  "days_in_month y m =
     (if m = 2 then (if is_leap y then 29 else 28)
      else if m = 4 \<or> m = 6 \<or> m = 9 \<or> m = 11 then 30
      else 31)"

definition valid_ymd :: "int \<Rightarrow> int \<Rightarrow> int \<Rightarrow> bool" where
  "valid_ymd y m d = (1 \<le> m \<and> m \<le> 12 \<and> 1 \<le> d \<and> d \<le> days_in_month y m)"

definition valid_date :: "date \<Rightarrow> bool" where
  "valid_date x = (1 \<le> year x \<and> year x \<le> 9999 \<and> valid_ymd (year x) (month x) (day x))"

text \<open>The constructor \<open>datetime.date(y, m, d)\<close>, which raises \<open>ValueError\<close> outside the
  calendar and outside the years 1 to 9999.\<close>

definition date_new :: "int \<Rightarrow> int \<Rightarrow> int \<Rightarrow> error + date" where
  "date_new y m d =
     (if 1 \<le> y \<and> y \<le> 9999 \<and> valid_ymd y m d
      then Inr \<lparr>year = y, month = m, day = d\<rparr>
      else Inl ValueError)"

text \<open>Dates compare by year, then month, then day.\<close>

definition date_lt :: "date \<Rightarrow> date \<Rightarrow> bool" where
  "date_lt a b =
     (year a < year b \<or>
      (year a = year b \<and> (month a < month b \<or> (month a = month b \<and> day a < day b))))"

definition days_before_year :: "int \<Rightarrow> int" where
  "days_before_year y = (y - 1) * 365 + (y - 1) div 4 - (y - 1) div 100 + (y - 1) div 400"

definition days_before_month :: "int \<Rightarrow> int \<Rightarrow> int" where
  "days_before_month y m = sum_list (map (days_in_month y) [1..m - 1])"

definition toordinal :: "date \<Rightarrow> int" where
  "toordinal x = days_before_year (year x) + days_before_month (year x) (month x) + day x"

text \<open>\<open>date.weekday()\<close>: Monday is 0 and Sunday is 6.\<close>

definition weekday :: "date \<Rightarrow> int" where
  "weekday x = (toordinal x + 6) mod 7"

definition next_day :: "date \<Rightarrow> date" where
  "next_day x =
     (if day x < days_in_month (year x) (month x) then x\<lparr>day := day x + 1\<rparr>
      else if month x < 12 then x\<lparr>month := month x + 1, day := 1\<rparr>
      else \<lparr>year = year x + 1, month = 1, day = 1\<rparr>)"

definition add_days :: "date \<Rightarrow> nat \<Rightarrow> date" where
  "add_days x n = (next_day ^^ n) x"

text \<open>\<open>x + datetime.timedelta(days=n)\<close> for \<open>n \<ge> 0\<close>: the date \<open>n\<close> days later, or
  \<open>OverflowError\<close> past the year 9999.\<close>

definition date_plus_days :: "date \<Rightarrow> nat \<Rightarrow> error + date" where
  "date_plus_days x n =
     (let r = add_days x n in if year r \<le> 9999 then Inr r else Inl OverflowError)"

text \<open>\<open>(a - b).days\<close>.\<close>

definition days_between :: "date \<Rightarrow> date \<Rightarrow> int" where
  "days_between a b = toordinal a - toordinal b"

text \<open>Python's truth value of an optional string: \<open>None\<close> and the empty string are false.\<close>

definition truthy :: "string option \<Rightarrow> bool" where
  "truthy s = (case s of None \<Rightarrow> False | Some t \<Rightarrow> t \<noteq> [])"

text \<open>\<open>s or ""\<close>.\<close>

definition or_empty :: "string option \<Rightarrow> string" where
  "or_empty s = (case s of None \<Rightarrow> [] | Some t \<Rightarrow> t)"

subsection \<open>Numbers of a decimal field\<close>

text \<open>The value that an object in memory holds in a decimal field: a \<open>Decimal\<close>, or a
  Python \<open>float\<close> where the declared default of the field is one. A \<open>float\<close> divides by an
  integer, but its product with a \<open>Decimal\<close> raises \<open>TypeError\<close>, whatever its value.\<close>

datatype numero = Decimal rat | Float rat

text \<open>\<open>Decimal.quantize(Decimal("0.01"))\<close> under the default rounding, half to even: the
  conversion to two decimal places.\<close>

definition quantize2 :: "rat \<Rightarrow> rat" where
  "quantize2 v =
     (let n = \<lfloor>v * 100\<rfloor>; r = v * 100 - of_int n
      in of_int (if r < 1 / 2 then n else if 1 / 2 < r then n + 1
                 else if even n then n else n + 1) / 100)"

text \<open>What the framework gives for a number read from a column declared
  \<open>DecimalField(max_digits=12, decimal_places=2)\<close>: the number quantized to two places
  under a precision of 12 digits, which raises \<open>decimal.InvalidOperation\<close> when the
  result needs more than 12 digits.\<close>

definition columna_12_2 :: "rat \<Rightarrow> error + rat" where
  "columna_12_2 v =
     (let q = quantize2 v in if \<bar>q\<bar> < 10 ^ 10 then Inr q else Inl InvalidOperation)"


section \<open>The data model\<close>

record area_comun =
  pk :: "nat option"
  requiere_reserva :: bool
  horario_apertura :: "time option"
  horario_cierre :: "time option"
  esta_activa :: bool
  tarifa :: rat

record reserva =
  pk :: "nat option"
  area :: nat
  propietario :: nat
  fecha_reserva :: date
  hora_inicio :: time
  hora_fin :: time
  estado :: string
  observaciones :: "string option"
  fecha_confirmacion :: "datetime option"
  confirmada_por :: "nat option"
  costo :: rat
  pagada :: bool

text \<open>A \<open>Reserva\<close> object in memory: the row and the attribute \<open>_initial_values\<close>, which
  \<open>save\<close> creates. \<open>None\<close> is the attribute missing, \<open>Some None\<close> the empty dictionary.\<close>

record reserva_inst = reserva +
  initial_values :: "(date \<times> time \<times> time) option option"

record vivienda =
  pk :: "nat option"
  manzana :: string
  numero :: string
  coeficiente_propiedad :: rat

record cuota_administracion =
  pk :: "nat option"
  anio :: int
  mes :: int
  valor_base :: rat
  fecha_vencimiento :: date
  recargo_mora :: numero

record pago_administracion =
  pk :: "nat option"
  vivienda :: nat
  cuota :: nat
  fecha_pago :: date
  monto_pagado :: rat
  estado :: string

text \<open>A \<open>PagoAdministracion\<close> object in memory. Its \<open>_initial_values\<close> is missing
  (\<open>None\<close>), the empty dictionary (\<open>Some None\<close>) or \<open>{"estado": s}\<close> (\<open>Some (Some s)\<close>).\<close>

record pago_inst = pago_administracion +
  initial_values :: "string option option"

record ingreso_gasto =
  pk :: "nat option"
  fecha :: date
  tipo :: string
  categoria :: string
  descripcion :: string
  monto :: rat
  proveedor :: "nat option"
  pago :: "nat option"
  estado :: string
  relacion_sin_guardar :: bool

record incidencia =
  pk :: "nat option"
  estado :: string
  fecha_cierre :: "datetime option"

record mantenimiento =
  pk :: "nat option"
  incidencia :: "nat option"
  proveedor :: "nat option"
  titulo :: string
  fecha_inicio :: "date option"
  fecha_finalizacion :: "date option"
  costo_final :: "rat option"
  estado :: string
  observaciones :: "string option"

record programacion_mantenimiento =
  frecuencia :: string
  dia_semana :: "nat option"
  dia_mes :: "nat option"
  ultima_generacion :: "date option"

record fondo_reserva =
  pk :: "nat option"
  nombre :: string
  monto_actual :: rat

record movimiento_fondo =
  pk :: "nat option"
  fondo :: nat
  tipo :: string
  monto :: rat
  descripcion :: string

record seguimiento_incidencia =
  pk :: "nat option"
  incidencia :: nat
  comentario :: string
  estado_actual :: string
  visible_para_propietario :: bool

text \<open>The database: one table for each model, its rows keyed by primary key.\<close>

record db =
  areas :: "(nat \<times> area_comun) list"
  reservas :: "(nat \<times> reserva) list"
  viviendas :: "(nat \<times> vivienda) list"
  cuotas :: "(nat \<times> cuota_administracion) list"
  pagos :: "(nat \<times> pago_administracion) list"
  ingresos_gastos :: "(nat \<times> ingreso_gasto) list"
  incidencias :: "(nat \<times> incidencia) list"
  mantenimientos :: "(nat \<times> mantenimiento) list"
  fondos :: "(nat \<times> fondo_reserva) list"
  movimientos :: "(nat \<times> movimiento_fondo) list"

text \<open>The primary key the database gives to an inserted row.\<close>

definition next_pk :: "(nat \<times> 'a) list \<Rightarrow> nat" where
  "next_pk t = Suc (fold max (map fst t) 0)"

definition save_pk :: "(nat \<times> 'a) list \<Rightarrow> nat option \<Rightarrow> nat" where
  "save_pk t k = (case k of None \<Rightarrow> next_pk t | Some j \<Rightarrow> j)"

text \<open>\<open>Model.objects.get(id=k)\<close>.\<close>

definition objects_get :: "(nat \<times> 'a) list \<Rightarrow> nat option \<Rightarrow> error + 'a" where
  "objects_get t k =
     (case k of None \<Rightarrow> Inl DoesNotExist
      | Some j \<Rightarrow> (case map_of t j of None \<Rightarrow> Inl DoesNotExist | Some r \<Rightarrow> Inr r))"

section \<open>Follow-up notes of an incident\<close>

text \<open>\<open>SeguimientoIncidencia.notificar_propietario\<close>. The body that would send a message
  is a comment in the source; what is left is the visibility test.\<close>

definition notificar_propietario ::
  "seguimiento_incidencia \<Rightarrow> db \<Rightarrow> bool \<times> seguimiento_incidencia \<times> db" where
  "notificar_propietario self d =
     (if \<not> visible_para_propietario self then (False, self, d) else (True, self, d))"

section \<open>Administration fees\<close>

text \<open>\<open>Vivienda.calcular_valor_cuota\<close>.\<close>

definition calcular_valor_cuota :: "vivienda \<Rightarrow> cuota_administracion \<Rightarrow> rat" where
  "calcular_valor_cuota self c = valor_base c * coeficiente_propiedad self"

text \<open>\<open>CuotaAdministracion.esta_vencida\<close>, with \<open>hoy\<close> the value of
  \<open>timezone.now().date()\<close>.\<close>

definition esta_vencida :: "date \<Rightarrow> cuota_administracion \<Rightarrow> bool" where
  "esta_vencida hoy self = date_lt (fecha_vencimiento self) hoy"

definition calcular_valor_vivienda :: "cuota_administracion \<Rightarrow> vivienda \<Rightarrow> rat" where
  "calcular_valor_vivienda self v = valor_base self * coeficiente_propiedad v"

text \<open>\<open>CuotaAdministracion.calcular_valor_con_mora\<close>. The field \<open>recargo_mora\<close> is declared
  with \<open>default=0.0\<close>: an object built without a surcharge holds that \<open>float\<close> until it is
  loaded again from the database, and \<open>valor_base * (self.recargo_mora / 100)\<close> then
  multiplies a \<open>Decimal\<close> by a \<open>float\<close>.\<close>

definition calcular_valor_con_mora ::
  "date \<Rightarrow> cuota_administracion \<Rightarrow> vivienda \<Rightarrow> error + rat" where
  "calcular_valor_con_mora hoy self v =
     (let base = calcular_valor_vivienda self v
      in if esta_vencida hoy self
         then (case recargo_mora self of
                 Decimal r \<Rightarrow> (let recargo = base * (r / 100) in Inr (base + recargo))
               | Float f \<Rightarrow> Inl TypeError)
         else Inr base)"

text \<open>On or after: the order of dates is total, so this is the negation of
  \<open>date_lt\<close> the other way round (lemma \<open>date_le_iff\<close>).\<close>

definition date_le :: "date \<Rightarrow> date \<Rightarrow> bool" where
  "date_le a b = (date_lt a b \<or> a = b)"

section \<open>The ledger\<close>

text \<open>The write of \<open>models.Model.save\<close> for a ledger row: an object without primary key
  is inserted under a new one, an object with a primary key replaces the row of that
  key. The numbers are written as the object holds them; \<open>ingreso_gasto_get\<close> below is
  what a read gives for the row.\<close>

definition ingreso_gasto_model_save :: "ingreso_gasto \<Rightarrow> db \<Rightarrow> ingreso_gasto \<times> db" where
  "ingreso_gasto_model_save self d =
     (let k = save_pk (ingresos_gastos d) (ingreso_gasto.pk self);
          self' = self\<lparr>ingreso_gasto.pk := Some k\<rparr>
      in (self', d\<lparr>ingresos_gastos := AList.update k self' (ingresos_gastos d)\<rparr>))"

text \<open>\<open>super().save()\<close> of a ledger object. Before it writes, the framework refuses an
  object whose \<open>pago\<close> or \<open>proveedor\<close> is an object without primary key (\<open>ValueError\<close>,
  "save() prohibited to prevent data loss due to unsaved related object"); the field
  \<open>relacion_sin_guardar\<close> of the object in memory says that such an object is assigned.\<close>

definition ingreso_gasto_super_save ::
  "ingreso_gasto \<Rightarrow> db \<Rightarrow> (error + unit) \<times> ingreso_gasto \<times> db" where
  "ingreso_gasto_super_save self d =
     (if relacion_sin_guardar self then (Inl ValueError, self, d)
      else case ingreso_gasto_model_save self d of (self', d') \<Rightarrow> (Inr (), self', d'))"

text \<open>\<open>IngresoGasto.save\<close>.\<close>

definition ingreso_gasto_save ::
  "ingreso_gasto \<Rightarrow> db \<Rightarrow> (error + unit) \<times> ingreso_gasto \<times> db" where
  "ingreso_gasto_save self d =
     (if ingreso_gasto.monto self \<le> 0 then (Inl ValueError, self, d)
      else
        (let self1 =
               (if ingreso_gasto.tipo self = ''gasto'' \<and> ingreso_gasto.monto self > 0
                then self\<lparr>ingreso_gasto.monto := - ingreso_gasto.monto self\<rparr>
                else self)
         in ingreso_gasto_super_save self1 d))"


text \<open>\<open>IngresoGasto.objects.create(...)\<close>: build the object and save it.\<close>

definition ingreso_gasto_create :: "ingreso_gasto \<Rightarrow> db \<Rightarrow> (error + ingreso_gasto) \<times> db" where
  "ingreso_gasto_create obj d =
     (case ingreso_gasto_save obj d of
        (Inl e, _, d') \<Rightarrow> (Inl e, d')
      | (Inr _, obj', d') \<Rightarrow> (Inr obj', d'))"

text \<open>\<open>IngresoGasto.anular\<close>.\<close>

definition anular ::
  "string option \<Rightarrow> ingreso_gasto \<Rightarrow> db \<Rightarrow> (error + bool) \<times> ingreso_gasto \<times> db" where
  "anular motivo self d =
     (if ingreso_gasto.estado self = ''anulado'' then (Inr False, self, d)
      else
        (let self1 = self\<lparr>ingreso_gasto.estado := ''anulado''\<rparr>;
             self2 =
               (if truthy motivo
                then self1\<lparr>ingreso_gasto.descripcion :=
                       ingreso_gasto.descripcion self1 @ [CHR 0x0A] @ ''[ANULADO] '' @ or_empty motivo\<rparr>
                else self1)
         in case ingreso_gasto_save self2 d of
              (Inl e, self3, d') \<Rightarrow> (Inl e, self3, d')
            | (Inr _, self3, d') \<Rightarrow> (Inr True, self3, d')))"

section \<open>Reserve funds\<close>

text \<open>\<open>FondoReserva.save\<close> is the framework's: the fund is written as the object holds
  it, and \<open>fondo_reserva_get\<close> is what a read gives for the row.\<close>

definition fondo_reserva_model_save :: "fondo_reserva \<Rightarrow> db \<Rightarrow> nat \<times> fondo_reserva \<times> db" where
  "fondo_reserva_model_save self d =
     (let k = save_pk (fondos d) (fondo_reserva.pk self);
          self' = self\<lparr>fondo_reserva.pk := Some k\<rparr>
      in (k, self', d\<lparr>fondos := AList.update k self' (fondos d)\<rparr>))"

text \<open>\<open>MovimientoFondo.objects.create(...)\<close>; the model does not override \<open>save\<close>.\<close>

definition movimiento_fondo_create :: "movimiento_fondo \<Rightarrow> db \<Rightarrow> movimiento_fondo \<times> db" where
  "movimiento_fondo_create obj d =
     (let k = save_pk (movimientos d) (movimiento_fondo.pk obj);
          obj' = obj\<lparr>movimiento_fondo.pk := Some k\<rparr>
      in (obj', d\<lparr>movimientos := AList.update k obj' (movimientos d)\<rparr>))"

text \<open>\<open>FondoReserva.objects.get(id=k)\<close> and \<open>MovimientoFondo.objects.get(id=k)\<close>: the
  objects that a read builds from the stored rows, with \<open>monto_actual\<close> and \<open>monto\<close>
  converted as their columns declare.\<close>

definition fondo_reserva_get :: "nat option \<Rightarrow> db \<Rightarrow> error + fondo_reserva" where
  "fondo_reserva_get k d =
     (case objects_get (fondos d) k of
        Inl e \<Rightarrow> Inl e
      | Inr r \<Rightarrow>
          (case columna_12_2 (monto_actual r) of
             Inl e \<Rightarrow> Inl e
           | Inr q \<Rightarrow> Inr (r\<lparr>monto_actual := q\<rparr>)))"

definition movimiento_fondo_get :: "nat option \<Rightarrow> db \<Rightarrow> error + movimiento_fondo" where
  "movimiento_fondo_get k d =
     (case objects_get (movimientos d) k of
        Inl e \<Rightarrow> Inl e
      | Inr r \<Rightarrow>
          (case columna_12_2 (movimiento_fondo.monto r) of
             Inl e \<Rightarrow> Inl e
           | Inr q \<Rightarrow> Inr (r\<lparr>movimiento_fondo.monto := q\<rparr>)))"

text \<open>\<open>FondoReserva.registrar_aporte\<close>.\<close>

definition registrar_aporte ::
  "rat \<Rightarrow> string option \<Rightarrow> fondo_reserva \<Rightarrow> db
     \<Rightarrow> (error + movimiento_fondo) \<times> fondo_reserva \<times> db" where
  "registrar_aporte m descr self d =
     (if m \<le> 0 then (Inl ValueError, self, d)
      else
        (case fondo_reserva_model_save (self\<lparr>monto_actual := monto_actual self + m\<rparr>) d of
           (k, self', d') \<Rightarrow>
             (case movimiento_fondo_create
                     \<lparr>movimiento_fondo.pk = None, fondo = k, movimiento_fondo.tipo = ''ingreso'',
                      movimiento_fondo.monto = m,
                      movimiento_fondo.descripcion =
                        (if truthy descr then or_empty descr
                         else ''Aporte al fondo '' @ nombre self')\<rparr> d' of
                (mv, d'') \<Rightarrow> (Inr mv, self', d''))))"

text \<open>\<open>FondoReserva.registrar_uso\<close>.\<close>

definition registrar_uso ::
  "rat \<Rightarrow> string \<Rightarrow> fondo_reserva \<Rightarrow> db
     \<Rightarrow> (error + movimiento_fondo) \<times> fondo_reserva \<times> db" where
  "registrar_uso m descr self d =
     (if m \<le> 0 then (Inl ValueError, self, d)
      else if m > monto_actual self then (Inl ValueError, self, d)
      else
        (case fondo_reserva_model_save (self\<lparr>monto_actual := monto_actual self - m\<rparr>) d of
           (k, self', d') \<Rightarrow>
             (case movimiento_fondo_create
                     \<lparr>movimiento_fondo.pk = None, fondo = k, movimiento_fondo.tipo = ''gasto'',
                      movimiento_fondo.monto = m, movimiento_fondo.descripcion = descr\<rparr> d' of
                (mv, d'') \<Rightarrow> (Inr mv, self', d''))))"

text \<open>A database without rows, and the objects used as concrete inputs below.\<close>

definition db_vacia :: db where
  "db_vacia = \<lparr>areas = [], reservas = [], viviendas = [], cuotas = [], pagos = [],
     ingresos_gastos = [], incidencias = [], mantenimientos = [], fondos = [],
     movimientos = []\<rparr>"

definition gasto_nuevo :: ingreso_gasto where
  "gasto_nuevo = \<lparr>ingreso_gasto.pk = None, fecha = \<lparr>year = 2024, month = 3, day = 5\<rparr>,
     ingreso_gasto.tipo = ''gasto'', categoria = ''aseo'',
     ingreso_gasto.descripcion = ''Insumos'', ingreso_gasto.monto = 100,
     ingreso_gasto.proveedor = None, pago = None, ingreso_gasto.estado = ''registrado'',
     relacion_sin_guardar = False\<rparr>"




definition fondo_imprevistos :: fondo_reserva where
  "fondo_imprevistos = \<lparr>fondo_reserva.pk = None, nombre = ''Imprevistos'', monto_actual = 50\<rparr>"

text \<open>A fund at the largest amount its column holds, 9999999999.99.\<close>

definition fondo_lleno :: fondo_reserva where
  "fondo_lleno = \<lparr>fondo_reserva.pk = None, nombre = ''Fachada'',
     monto_actual = 999999999999 / 100\<rparr>"


definition cuota_marzo :: cuota_administracion where
  "cuota_marzo = \<lparr>cuota_administracion.pk = Some 1, anio = 2024, mes = 3, valor_base = 200000,
     fecha_vencimiento = \<lparr>year = 2024, month = 3, day = 10\<rparr>, recargo_mora = Decimal 5\<rparr>"

text \<open>The fee of April as \<open>CuotaAdministracion(...)\<close> builds it when no \<open>recargo_mora\<close> is
  given: the field holds its default, the \<open>float\<close> 0.0.\<close>

definition cuota_abril :: cuota_administracion where
  "cuota_abril = \<lparr>cuota_administracion.pk = None, anio = 2024, mes = 4, valor_base = 200000,
     fecha_vencimiento = \<lparr>year = 2024, month = 4, day = 10\<rparr>, recargo_mora = Float 0\<rparr>"

definition casa_a1 :: vivienda where
  "casa_a1 = \<lparr>vivienda.pk = Some 1, manzana = ''A'', numero = ''1'',
     coeficiente_propiedad = 1 / 40\<rparr>"

section \<open>Common areas and reservations\<close>

text \<open>The three \<open>Q\<close> objects of the collision filter of \<open>AreaComun.esta_disponible\<close>, as
  predicates on a stored reservation. In the first two the right-hand sides are the
  arguments \<open>hora_fin\<close> and \<open>hora_inicio\<close> of the method. In the third they are
  \<open>models.F("hora_inicio")\<close> and \<open>models.F("hora_fin")\<close>, which denote the columns of the
  row under test, not the arguments.\<close>

definition caso_1 :: "time \<Rightarrow> time \<Rightarrow> reserva \<Rightarrow> bool" where
  "caso_1 hi hf r = (hora_inicio r < hf \<and> hora_fin r > hi)"

definition caso_2 :: "time \<Rightarrow> time \<Rightarrow> reserva \<Rightarrow> bool" where
  "caso_2 hi hf r = (hora_inicio r < hf \<and> hora_fin r > hi)"

definition caso_3 :: "reserva \<Rightarrow> bool" where
  "caso_3 r = (hora_inicio r \<le> hora_inicio r \<and> hora_fin r \<ge> hora_fin r)"

text \<open>\<open>AreaComun.esta_disponible\<close>, for an area that has been stored. The related manager
  \<open>self.reservas\<close> is the rows of the reservation table whose \<open>area\<close> is this area; for
  an area without primary key it selects no row here, where the framework from version
  4.1 on refuses the related manager of an unsaved object.\<close>

definition esta_disponible :: "date \<Rightarrow> time \<Rightarrow> time \<Rightarrow> area_comun \<Rightarrow> db \<Rightarrow> bool" where
  "esta_disponible f hi hf self d =
     (if \<not> requiere_reserva self \<or> \<not> esta_activa self then False
      else if (case horario_apertura self of None \<Rightarrow> False | Some ha \<Rightarrow> hi < ha) \<or>
              (case horario_cierre self of None \<Rightarrow> False | Some hc \<Rightarrow> hf > hc)
      then False
      else
        (let colisiones =
               (filter (\<lambda>r. caso_1 hi hf r \<or> caso_2 hi hf r \<or> caso_3 r)
                  (filter (\<lambda>r. fecha_reserva r = f \<and> reserva.estado r = ''confirmada'')
                     (filter (\<lambda>r. Some (area r) = area_comun.pk self)
                        (map snd (reservas d)))) \<noteq> [])
         in \<not> colisiones))"

text \<open>Overlap as the specification words it: a reservation overlaps the requested slot
  when its \<open>hora_inicio\<close> is before the slot's end and its \<open>hora_fin\<close> after the slot's start.\<close>

definition traslapa :: "time \<Rightarrow> time \<Rightarrow> reserva \<Rightarrow> bool" where
  "traslapa hi hf r = (hora_inicio r < hf \<and> hora_fin r > hi)"

text \<open>\<open>Reserva.save\<close>, with \<open>now\<close> the value of \<open>timezone.now()\<close>.\<close>

definition reserva_save ::
  "datetime \<Rightarrow> reserva_inst \<Rightarrow> db \<Rightarrow> (error + unit) \<times> reserva_inst \<times> db" where
  "reserva_save now self d =
     (let self1 = self\<lparr>reserva_inst.initial_values :=
                   (case objects_get (reservas d) (reserva.pk self) of
                      Inr r \<Rightarrow> Some (Some (fecha_reserva r, hora_inicio r, hora_fin r))
                    | Inl _ \<Rightarrow> Some None)\<rparr>;
          self2 = (if reserva.estado self1 = ''confirmada'' \<and> fecha_confirmacion self1 = None
                   then self1\<lparr>fecha_confirmacion := Some now\<rparr> else self1)
      in case objects_get (areas d) (Some (area self2)) of
           Inl e \<Rightarrow> (Inl e, self2, d)
         | Inr a \<Rightarrow>
             (let self3 = (if tarifa a > 0 \<and> costo self2 = 0
                           then self2\<lparr>costo := tarifa a\<rparr> else self2);
                  k = save_pk (reservas d) (reserva.pk self3);
                  self4 = self3\<lparr>reserva.pk := Some k\<rparr>
              in (Inr (), self4,
                  d\<lparr>reservas := AList.update k (reserva.truncate self4) (reservas d)\<rparr>)))"

text \<open>The end of the four transition methods: \<open>self.save()\<close>, then \<open>return True\<close>.\<close>

definition reserva_save_true ::
  "datetime \<Rightarrow> reserva_inst \<Rightarrow> db \<Rightarrow> (error + bool) \<times> reserva_inst \<times> db" where
  "reserva_save_true now self d =
     (case reserva_save now self d of
        (Inl e, self', d') \<Rightarrow> (Inl e, self', d')
      | (Inr _, self', d') \<Rightarrow> (Inr True, self', d'))"

text \<open>\<open>Reserva.cancelar\<close>.\<close>

definition reserva_cancelar ::
  "datetime \<Rightarrow> string option \<Rightarrow> reserva_inst \<Rightarrow> db \<Rightarrow> (error + bool) \<times> reserva_inst \<times> db" where
  "reserva_cancelar now observacion self d =
     (if reserva.estado self \<noteq> ''pendiente'' \<and> reserva.estado self \<noteq> ''confirmada''
      then (Inr False, self, d)
      else
        (let self1 = self\<lparr>reserva.estado := ''cancelada''\<rparr>;
             self2 =
               (if truthy observacion
                then self1\<lparr>reserva.observaciones :=
                       Some (or_empty (reserva.observaciones self1) @ [CHR 0x0A] @
                             ''[Cancelaci'' @ [CHR 0xF3] @ ''n] '' @ or_empty observacion)\<rparr>
                else self1)
         in reserva_save_true now self2 d))"

text \<open>\<open>Reserva.confirmar\<close>; \<open>empleado\<close> is the primary key of the employee.\<close>

definition confirmar ::
  "datetime \<Rightarrow> nat \<Rightarrow> string option \<Rightarrow> reserva_inst \<Rightarrow> db
     \<Rightarrow> (error + bool) \<times> reserva_inst \<times> db" where
  "confirmar now empleado observacion self d =
     (if reserva.estado self \<noteq> ''pendiente'' then (Inr False, self, d)
      else
        (let self1 = self\<lparr>reserva.estado := ''confirmada'', confirmada_por := Some empleado,
                          fecha_confirmacion := Some now\<rparr>;
             self2 =
               (if truthy observacion
                then self1\<lparr>reserva.observaciones :=
                       Some (or_empty (reserva.observaciones self1) @ [CHR 0x0A] @
                             ''[Confirmaci'' @ [CHR 0xF3] @ ''n] '' @ or_empty observacion)\<rparr>
                else self1)
         in reserva_save_true now self2 d))"

text \<open>\<open>Reserva.marcar_completada\<close> and \<open>Reserva.marcar_no_asistio\<close>.\<close>

definition marcar_completada ::
  "datetime \<Rightarrow> reserva_inst \<Rightarrow> db \<Rightarrow> (error + bool) \<times> reserva_inst \<times> db" where
  "marcar_completada now self d =
     (if reserva.estado self \<noteq> ''confirmada'' then (Inr False, self, d)
      else reserva_save_true now (self\<lparr>reserva.estado := ''completada''\<rparr>) d)"

definition marcar_no_asistio ::
  "datetime \<Rightarrow> reserva_inst \<Rightarrow> db \<Rightarrow> (error + bool) \<times> reserva_inst \<times> db" where
  "marcar_no_asistio now self d =
     (if reserva.estado self \<noteq> ''confirmada'' then (Inr False, self, d)
      else reserva_save_true now (self\<lparr>reserva.estado := ''no_asistio''\<rparr>) d)"

text \<open>A call of one of the four transition methods, and a sequence of such calls on the
  same object, each at its own time; a caller that catches an exception goes on with the
  object and the database as the exception left them.\<close>

datatype reserva_op =
  Cancelar "string option"
| Confirmar nat "string option"
| MarcarCompletada
| MarcarNoAsistio

fun reserva_call ::
  "datetime \<Rightarrow> reserva_op \<Rightarrow> reserva_inst \<Rightarrow> db \<Rightarrow> (error + bool) \<times> reserva_inst \<times> db" where
  "reserva_call now (Cancelar obs) self d = reserva_cancelar now obs self d"
| "reserva_call now (Confirmar e obs) self d = confirmar now e obs self d"
| "reserva_call now MarcarCompletada self d = marcar_completada now self d"
| "reserva_call now MarcarNoAsistio self d = marcar_no_asistio now self d"

fun reserva_calls ::
  "(datetime \<times> reserva_op) list \<Rightarrow> reserva_inst \<Rightarrow> db \<Rightarrow> reserva_inst \<times> db" where
  "reserva_calls [] self d = (self, d)"
| "reserva_calls ((now, op) # ops) self d =
     (case reserva_call now op self d of (_, self', d') \<Rightarrow> reserva_calls ops self' d')"

definition estado_terminal :: "string \<Rightarrow> bool" where
  "estado_terminal e = (e = ''cancelada'' \<or> e = ''completada'' \<or> e = ''no_asistio'')"

text \<open>A hall that takes reservations, with one confirmed reservation from 10:00 to 11:00
  on 4 May 2024.\<close>

definition salon :: area_comun where
  "salon = \<lparr>area_comun.pk = Some 1, requiere_reserva = True, horario_apertura = Some (hm 8 0),
     horario_cierre = Some (hm 22 0), esta_activa = True, tarifa = 0\<rparr>"

definition reserva_manana :: reserva where
  "reserva_manana = \<lparr>reserva.pk = Some 1, area = 1, propietario = 7,
     fecha_reserva = \<lparr>year = 2024, month = 5, day = 4\<rparr>, hora_inicio = hm 10 0,
     hora_fin = hm 11 0, reserva.estado = ''confirmada'', reserva.observaciones = None,
     fecha_confirmacion = None, confirmada_por = None, costo = 0, pagada = False\<rparr>"

definition db_salon :: db where
  "db_salon = db_vacia\<lparr>areas := [(1, salon)], reservas := [(1, reserva_manana)]\<rparr>"

definition reserva_cancelada :: reserva_inst where
  "reserva_cancelada = \<lparr>reserva.pk = Some 1, area = 1, propietario = 7,
     fecha_reserva = \<lparr>year = 2024, month = 5, day = 4\<rparr>, hora_inicio = hm 10 0,
     hora_fin = hm 11 0, reserva.estado = ''cancelada'', reserva.observaciones = None,
     fecha_confirmacion = None, confirmada_por = None, costo = 0, pagada = False,
     reserva_inst.initial_values = None\<rparr>"

definition mediodia :: datetime where
  "mediodia = (\<lparr>year = 2024, month = 5, day = 3\<rparr>, hm 12 0)"

section \<open>Maintenance\<close>

text \<open>\<open>Incidencia.save\<close>.\<close>

definition incidencia_save :: "datetime \<Rightarrow> incidencia \<Rightarrow> db \<Rightarrow> incidencia \<times> db" where
  "incidencia_save now self d =
     (let cerrada = (incidencia.estado self = ''resuelta'' \<or> incidencia.estado self = ''cancelada'');
          self1 = (if cerrada \<and> fecha_cierre self = None
                   then self\<lparr>fecha_cierre := Some now\<rparr> else self);
          self2 = (if \<not> cerrada \<and> fecha_cierre self1 \<noteq> None
                   then self1\<lparr>fecha_cierre := None\<rparr> else self1);
          k = save_pk (incidencias d) (incidencia.pk self2);
          self3 = self2\<lparr>incidencia.pk := Some k\<rparr>
      in (self3, d\<lparr>incidencias := AList.update k self3 (incidencias d)\<rparr>))"

text \<open>The third step of \<open>Mantenimiento.save\<close>: \<open>self.incidencia\<close> loads the related
  incident when the foreign key is set (and raises when the row is missing); when the
  maintenance is 'finalizado' the incident is set to 'resuelta' and saved.\<close>

definition actualizar_incidencia :: "datetime \<Rightarrow> mantenimiento \<Rightarrow> db \<Rightarrow> error + db" where
  "actualizar_incidencia now self d =
     (case mantenimiento.incidencia self of
        None \<Rightarrow> Inr d
      | Some i \<Rightarrow>
          (case objects_get (incidencias d) (Some i) of
             Inl e \<Rightarrow> Inl e
           | Inr inc \<Rightarrow>
               if mantenimiento.estado self = ''finalizado''
               then Inr (snd (incidencia_save now (inc\<lparr>incidencia.estado := ''resuelta''\<rparr>) d))
               else Inr d))"

text \<open>\<open>Mantenimiento.save\<close>; the current date is \<open>timezone.now().date()\<close>.\<close>

definition mantenimiento_save ::
  "datetime \<Rightarrow> mantenimiento \<Rightarrow> db \<Rightarrow> (error + unit) \<times> mantenimiento \<times> db" where
  "mantenimiento_save now self d =
     (let self1 = (if mantenimiento.estado self = ''en_proceso'' \<and> fecha_inicio self = None
                   then self\<lparr>fecha_inicio := Some (fst now)\<rparr> else self);
          self2 = (if mantenimiento.estado self1 = ''finalizado'' \<and> fecha_finalizacion self1 = None
                   then self1\<lparr>fecha_finalizacion := Some (fst now)\<rparr> else self1)
      in case actualizar_incidencia now self2 d of
           Inl e \<Rightarrow> (Inl e, self2, d)
         | Inr d1 \<Rightarrow>
             (let k = save_pk (mantenimientos d1) (mantenimiento.pk self2);
                  self3 = self2\<lparr>mantenimiento.pk := Some k\<rparr>
              in (Inr (), self3,
                  d1\<lparr>mantenimientos := AList.update k self3 (mantenimientos d1)\<rparr>)))"

text \<open>\<open>Mantenimiento.iniciar\<close>.\<close>

definition iniciar ::
  "datetime \<Rightarrow> mantenimiento \<Rightarrow> db \<Rightarrow> (error + bool) \<times> mantenimiento \<times> db" where
  "iniciar now self d =
     (if mantenimiento.estado self \<noteq> ''programado'' then (Inr False, self, d)
      else
        (case mantenimiento_save now
                (self\<lparr>mantenimiento.estado := ''en_proceso'', fecha_inicio := Some (fst now)\<rparr>) d of
           (Inl e, self', d') \<Rightarrow> (Inl e, self', d')
         | (Inr _, self', d') \<Rightarrow> (Inr True, self', d')))"

text \<open>The expense that \<open>Mantenimiento.finalizar\<close> records after saving, when the final
  cost is set and positive.\<close>

definition registrar_gasto :: "mantenimiento \<Rightarrow> db \<Rightarrow> (error + unit) \<times> db" where
  "registrar_gasto self d =
     (case costo_final self of
        None \<Rightarrow> (Inr (), d)
      | Some c \<Rightarrow>
          if c \<noteq> 0 \<and> c > 0
          then (case fecha_finalizacion self of
                  None \<Rightarrow> (Inl IntegrityError, d)
                | Some f \<Rightarrow>
                    (case ingreso_gasto_create
                            \<lparr>ingreso_gasto.pk = None, fecha = f, ingreso_gasto.tipo = ''gasto'',
                             categoria = ''mantenimiento'',
                             ingreso_gasto.descripcion = ''Mantenimiento: '' @ titulo self,
                             ingreso_gasto.monto = c,
                             ingreso_gasto.proveedor = mantenimiento.proveedor self,
                             pago = None, ingreso_gasto.estado = ''registrado'',
                             relacion_sin_guardar = False\<rparr> d of
                       (Inl e, d') \<Rightarrow> (Inl e, d')
                     | (Inr _, d') \<Rightarrow> (Inr (), d')))
          else (Inr (), d))"

text \<open>\<open>Mantenimiento.finalizar\<close>.\<close>

definition finalizar ::
  "datetime \<Rightarrow> rat option \<Rightarrow> string option \<Rightarrow> mantenimiento \<Rightarrow> db
     \<Rightarrow> (error + bool) \<times> mantenimiento \<times> db" where
  "finalizar now costo_arg obs self d =
     (if mantenimiento.estado self \<noteq> ''programado'' \<and> mantenimiento.estado self \<noteq> ''en_proceso''
      then (Inr False, self, d)
      else
        (let self1 = self\<lparr>mantenimiento.estado := ''finalizado'',
                          fecha_finalizacion := Some (fst now)\<rparr>;
             self2 = (case costo_arg of None \<Rightarrow> self1 | Some c \<Rightarrow> self1\<lparr>costo_final := Some c\<rparr>);
             self3 =
               (if truthy obs
                then self2\<lparr>mantenimiento.observaciones :=
                       Some (or_empty (mantenimiento.observaciones self2) @ [CHR 0x0A] @
                             ''[FINALIZACI'' @ [CHR 0xD3] @ ''N] '' @ or_empty obs)\<rparr>
                else self2)
         in case mantenimiento_save now self3 d of
              (Inl e, self', d') \<Rightarrow> (Inl e, self', d')
            | (Inr _, self', d') \<Rightarrow>
                (case registrar_gasto self' d' of
                   (Inl e, d'') \<Rightarrow> (Inl e, self', d'')
                 | (Inr _, d'') \<Rightarrow> (Inr True, self', d''))))"

text \<open>\<open>Mantenimiento.cancelar\<close>.\<close>

definition mantenimiento_cancelar ::
  "datetime \<Rightarrow> string option \<Rightarrow> mantenimiento \<Rightarrow> db
     \<Rightarrow> (error + bool) \<times> mantenimiento \<times> db" where
  "mantenimiento_cancelar now motivo self d =
     (if mantenimiento.estado self = ''finalizado'' \<or> mantenimiento.estado self = ''cancelado''
      then (Inr False, self, d)
      else
        (let self1 = self\<lparr>mantenimiento.estado := ''cancelado''\<rparr>;
             self2 =
               (if truthy motivo
                then self1\<lparr>mantenimiento.observaciones :=
                       Some (or_empty (mantenimiento.observaciones self1) @ [CHR 0x0A] @
                             ''[CANCELACI'' @ [CHR 0xD3] @ ''N] '' @ or_empty motivo)\<rparr>
                else self1)
         in case mantenimiento_save now self2 d of
              (Inl e, self', d') \<Rightarrow> (Inl e, self', d')
            | (Inr _, self', d') \<Rightarrow> (Inr True, self', d')))"

text \<open>Referential integrity of the incident of a maintenance: the foreign key is null
  or the key of a stored incident (the constraint the database enforces).\<close>

definition incidencia_existe :: "mantenimiento \<Rightarrow> db \<Rightarrow> bool" where
  "incidencia_existe self d =
     (case mantenimiento.incidencia self of
        None \<Rightarrow> True
      | Some i \<Rightarrow> map_of (incidencias d) i \<noteq> None)"

definition poda :: mantenimiento where
  "poda = \<lparr>mantenimiento.pk = Some 1, mantenimiento.incidencia = Some 4,
     mantenimiento.proveedor = None, titulo = ''Poda de jardines'', fecha_inicio = None,
     fecha_finalizacion = None, costo_final = None, mantenimiento.estado = ''programado'',
     mantenimiento.observaciones = None\<rparr>"

definition db_poda :: db where
  "db_poda = db_vacia\<lparr>
     incidencias := [(4, \<lparr>incidencia.pk = Some 4, incidencia.estado = ''en_proceso'',
                          fecha_cierre = None\<rparr>)],
     mantenimientos := [(1, poda)]\<rparr>"

section \<open>Payments of the administration fee\<close>

text \<open>\<open>CuotaAdministracion.get_nombre_mes\<close> is a static method with the one parameter
  \<open>mes\<close>. It is embedded on the list of the arguments of a call, so that a call with
  another number of arguments raises \<open>TypeError\<close>, as Python does.\<close>

definition meses :: "string list" where
  "meses = [''Enero'', ''Febrero'', ''Marzo'', ''Abril'', ''Mayo'', ''Junio'', ''Julio'',
     ''Agosto'', ''Septiembre'', ''Octubre'', ''Noviembre'', ''Diciembre'']"

definition get_nombre_mes :: "int list \<Rightarrow> error + string" where
  "get_nombre_mes args =
     (case args of
        [m] \<Rightarrow> Inr (meses ! nat (max 1 (min m 12) - 1))
      | _ \<Rightarrow> Inl TypeError)"

text \<open>\<open>CuotaAdministracion.__str__\<close>: the text starts with
  \<open>f"Cuota {self.get_nombre_mes()} ..."\<close>, a call of the static method through the
  object, which passes no argument. The year and the amount that the source formats
  after the month name are not part of the embedding.\<close>

definition cuota_str :: "cuota_administracion \<Rightarrow> error + string" where
  "cuota_str self =
     (case get_nombre_mes [] of
        Inl e \<Rightarrow> Inl e
      | Inr n \<Rightarrow> Inr (''Cuota '' @ n))"

text \<open>\<open>Vivienda.__str__\<close>.\<close>

definition vivienda_str :: "vivienda \<Rightarrow> string" where
  "vivienda_str self = ''Casa '' @ manzana self @ ''-'' @ numero self"

text \<open>\<open>PagoAdministracion._registrar_ingreso\<close>. The description is built from the
  texts of the house and of the fee, in this order. The new ledger object gets the
  payment itself as its \<open>pago\<close>, which is an object without primary key when the payment
  has not been stored yet.\<close>

definition registrar_ingreso :: "pago_inst \<Rightarrow> db \<Rightarrow> (error + unit) \<times> db" where
  "registrar_ingreso self d =
     (case objects_get (viviendas d) (Some (vivienda self)) of
        Inl e \<Rightarrow> (Inl e, d)
      | Inr v \<Rightarrow>
          (case objects_get (cuotas d) (Some (cuota self)) of
             Inl e \<Rightarrow> (Inl e, d)
           | Inr c \<Rightarrow>
               (case cuota_str c of
                  Inl e \<Rightarrow> (Inl e, d)
                | Inr cs \<Rightarrow>
                    (case ingreso_gasto_create
                            \<lparr>ingreso_gasto.pk = None, fecha = fecha_pago self,
                             ingreso_gasto.tipo = ''ingreso'',
                             categoria = ''cuota_administracion'',
                             ingreso_gasto.descripcion =
                               ''Pago de cuota de administraci'' @ [CHR 0xF3] @ ''n - '' @
                               vivienda_str v @ '' - '' @ cs,
                             ingreso_gasto.monto = monto_pagado self,
                             ingreso_gasto.proveedor = None,
                             pago = pago_administracion.pk self,
                             ingreso_gasto.estado = ''registrado'',
                             relacion_sin_guardar = (pago_administracion.pk self = None)\<rparr> d of
                       (Inl e, d') \<Rightarrow> (Inl e, d')
                     | (Inr _, d') \<Rightarrow> (Inr (), d')))))"

text \<open>The loop of \<open>PagoAdministracion._anular_ingreso\<close> over the selected ledger rows.\<close>

fun anular_ingresos :: "ingreso_gasto list \<Rightarrow> db \<Rightarrow> (error + unit) \<times> db" where
  "anular_ingresos [] d = (Inr (), d)"
| "anular_ingresos (i # rest) d =
     (case ingreso_gasto_save (i\<lparr>ingreso_gasto.estado := ''anulado''\<rparr>) d of
        (Inl e, _, d') \<Rightarrow> (Inl e, d')
      | (Inr _, _, d') \<Rightarrow> anular_ingresos rest d')"

text \<open>\<open>PagoAdministracion._anular_ingreso\<close>.\<close>

definition anular_ingreso :: "pago_inst \<Rightarrow> db \<Rightarrow> (error + unit) \<times> db" where
  "anular_ingreso self d =
     anular_ingresos
       (filter (\<lambda>i. pago_administracion.pk self \<noteq> None \<and> pago i = pago_administracion.pk self \<and>
                     ingreso_gasto.tipo i = ''ingreso'')
          (map snd (ingresos_gastos d))) d"

text \<open>\<open>self._initial_values.get("estado")\<close>.\<close>

definition iv_estado :: "string option option \<Rightarrow> string option" where
  "iv_estado iv = (case iv of Some (Some s) \<Rightarrow> Some s | _ \<Rightarrow> None)"

text \<open>The first step of \<open>PagoAdministracion.save\<close>: a new payment without amount takes
  the value of the fee for the house.\<close>

definition valor_inicial :: "pago_inst \<Rightarrow> db \<Rightarrow> error + pago_inst" where
  "valor_inicial self d =
     (if (pago_administracion.pk self = None \<or> pago_administracion.pk self = Some 0) \<and>
         monto_pagado self = 0
      then (case objects_get (cuotas d) (Some (cuota self)) of
              Inl e \<Rightarrow> Inl e
            | Inr c \<Rightarrow>
                (case objects_get (viviendas d) (Some (vivienda self)) of
                   Inl e \<Rightarrow> Inl e
                 | Inr v \<Rightarrow> Inr (self\<lparr>monto_pagado := calcular_valor_vivienda c v\<rparr>)))
      else Inr self)"

text \<open>The write of \<open>models.Model.save\<close> for a payment; \<open>pago_get\<close> below is what a read
  gives for the row.\<close>

definition pago_model_save :: "pago_inst \<Rightarrow> db \<Rightarrow> pago_inst \<times> db" where
  "pago_model_save self d =
     (let k = save_pk (pagos d) (pago_administracion.pk self);
          self' = self\<lparr>pago_administracion.pk := Some k\<rparr>
      in (self', d\<lparr>pagos := AList.update k (pago_administracion.truncate self') (pagos d)\<rparr>))"

text \<open>\<open>PagoAdministracion.save\<close>. The snapshot \<open>_initial_values\<close> is read by the two ledger
  steps and written after them, from the row that is in the database before this save
  stores the object.\<close>

definition pago_save :: "pago_inst \<Rightarrow> db \<Rightarrow> (error + unit) \<times> pago_inst \<times> db" where
  "pago_save self d =
     (case valor_inicial self d of
        Inl e \<Rightarrow> (Inl e, self, d)
      | Inr self1 \<Rightarrow>
          (case (if pago_administracion.estado self1 = ''confirmado'' \<and>
                    (pago_inst.initial_values self1 = None \<or>
                     iv_estado (pago_inst.initial_values self1) \<noteq> Some ''confirmado'')
                 then registrar_ingreso self1 d else (Inr (), d)) of
             (Inl e, d1) \<Rightarrow> (Inl e, self1, d1)
           | (Inr _, d1) \<Rightarrow>
               (case (if pago_inst.initial_values self1 \<noteq> None \<and>
                         iv_estado (pago_inst.initial_values self1) = Some ''confirmado'' \<and>
                         pago_administracion.estado self1 = ''rechazado''
                      then anular_ingreso self1 d1 else (Inr (), d1)) of
                  (Inl e, d2) \<Rightarrow> (Inl e, self1, d2)
                | (Inr _, d2) \<Rightarrow>
                    (let self2 = self1\<lparr>pago_inst.initial_values :=
                                   (case objects_get (pagos d2) (pago_administracion.pk self1) of
                                      Inr r \<Rightarrow> Some (Some (pago_administracion.estado r))
                                    | Inl _ \<Rightarrow> Some None)\<rparr>
                     in case pago_model_save self2 d2 of
                          (self3, d3) \<Rightarrow> (Inr (), self3, d3)))))"

text \<open>\<open>PagoAdministracion.objects.get(id=k)\<close>: a new object for the stored row, its
  \<open>monto_pagado\<close> converted as the column declares; nothing but \<open>save\<close> gives an object
  the attribute \<open>_initial_values\<close>.\<close>

definition pago_get :: "nat \<Rightarrow> db \<Rightarrow> error + pago_inst" where
  "pago_get k d =
     (case objects_get (pagos d) (Some k) of
        Inl e \<Rightarrow> Inl e
      | Inr r \<Rightarrow>
          (case columna_12_2 (monto_pagado r) of
             Inl e \<Rightarrow> Inl e
           | Inr q \<Rightarrow>
               Inr (pago_administracion.extend (r\<lparr>monto_pagado := q\<rparr>)
                      (pago_inst.fields None))))"

text \<open>House A-1 has paid the fee of March 2024. In \<open>db_pago_registrado\<close> the payment is
  stored as 'registrado' and the ledger is empty; in \<open>db_pago_confirmado\<close> it is stored as
  'confirmado' and the ledger holds its income row.\<close>

definition pago_marzo :: pago_administracion where
  "pago_marzo = \<lparr>pago_administracion.pk = Some 1, vivienda = 1, cuota = 1,
     fecha_pago = \<lparr>year = 2024, month = 3, day = 8\<rparr>, monto_pagado = 5000,
     pago_administracion.estado = ''registrado''\<rparr>"

definition ingreso_marzo :: ingreso_gasto where
  "ingreso_marzo = \<lparr>ingreso_gasto.pk = Some 1, fecha = \<lparr>year = 2024, month = 3, day = 8\<rparr>,
     ingreso_gasto.tipo = ''ingreso'', categoria = ''cuota_administracion'',
     ingreso_gasto.descripcion = ''Pago de cuota'', ingreso_gasto.monto = 5000,
     ingreso_gasto.proveedor = None, pago = Some 1, ingreso_gasto.estado = ''registrado'',
     relacion_sin_guardar = False\<rparr>"

definition db_pago_registrado :: db where
  "db_pago_registrado = db_vacia\<lparr>viviendas := [(1, casa_a1)], cuotas := [(1, cuota_marzo)],
     pagos := [(1, pago_marzo)]\<rparr>"

definition db_pago_confirmado :: db where
  "db_pago_confirmado = db_vacia\<lparr>viviendas := [(1, casa_a1)], cuotas := [(1, cuota_marzo)],
     pagos := [(1, pago_marzo\<lparr>pago_administracion.estado := ''confirmado''\<rparr>)],
     ingresos_gastos := [(1, ingreso_marzo)]\<rparr>"

text \<open>The payment of March as \<open>pago_get\<close> loads it, with \<open>estado\<close> set to \<open>e\<close>.\<close>

definition pago_cargado :: "string \<Rightarrow> pago_inst" where
  "pago_cargado e = \<lparr>pago_administracion.pk = Some 1, vivienda = 1, cuota = 1,
     fecha_pago = \<lparr>year = 2024, month = 3, day = 8\<rparr>, monto_pagado = 5000,
     pago_administracion.estado = e, pago_inst.initial_values = None\<rparr>"

section \<open>Recurring maintenance\<close>

text \<open>\<open>ProgramacionMantenimiento._ultimo_dia_mes\<close>: \<open>calendar.monthrange(a, m)[1]\<close>, which
  rejects a month outside 1 to 12 with a subclass of \<open>ValueError\<close>.\<close>

definition ultimo_dia_mes :: "int \<Rightarrow> int \<Rightarrow> error + int" where
  "ultimo_dia_mes a m =
     (if 1 \<le> m \<and> m \<le> 12 then Inr (days_in_month a m) else Inl ValueError)"

text \<open>\<open>dias_agregar = (self.dia_semana - hoy.weekday() - 1) % 7\<close>; Python's \<open>%\<close> with a
  positive modulus is never negative, as \<open>mod\<close> on \<open>int\<close>.\<close>

definition dias_agregar :: "nat \<Rightarrow> date \<Rightarrow> nat" where
  "dias_agregar k hoy = nat ((int k - weekday hoy - 1) mod 7)"

text \<open>The month after the current one, as the pair \<open>(mes, year)\<close> of the handler.\<close>

definition mes_siguiente :: "date \<Rightarrow> int \<times> int" where
  "mes_siguiente hoy =
     (if month hoy = 12 then (1, year hoy + 1) else (month hoy + 1, year hoy))"

text \<open>The handler of \<open>ValueError\<close> in the monthly branch.\<close>

definition fecha_mes_siguiente :: "int \<Rightarrow> date \<Rightarrow> error + date" where
  "fecha_mes_siguiente k hoy =
     (case mes_siguiente hoy of
        (m, a) \<Rightarrow>
          if k > 28
          then (case ultimo_dia_mes a m of
                  Inl e \<Rightarrow> Inl e
                | Inr ultimo_dia \<Rightarrow> date_new a m (min k ultimo_dia))
          else date_new a m k)"

text \<open>The \<open>try\<close> block of the monthly branch; an exception leaves it as \<open>Inl\<close>.\<close>

definition fecha_este_mes :: "int \<Rightarrow> date \<Rightarrow> error + date" where
  "fecha_este_mes k hoy =
     (case date_new (year hoy) (month hoy) k of
        Inl e \<Rightarrow> Inl e
      | Inr proxima \<Rightarrow>
          if date_lt proxima hoy
          then (if month hoy = 12 then date_new (year hoy + 1) 1 k
                else date_new (year hoy) (month hoy + 1) k)
          else Inr proxima)"

text \<open>\<open>ProgramacionMantenimiento._calcular_proxima_fecha\<close>, with \<open>hoy\<close> the value of
  \<open>timezone.now().date()\<close>. The result \<open>Inr None\<close> is the method returning \<open>None\<close>. The
  tests \<open>not self.dia_semana\<close> and \<open>not self.dia_mes\<close> are true for \<open>None\<close> and for 0.\<close>

definition calcular_proxima_fecha ::
  "date \<Rightarrow> programacion_mantenimiento \<Rightarrow> error + date option" where
  "calcular_proxima_fecha hoy self =
     (if frecuencia self = ''diaria'' then Inr (Some hoy)
      else if frecuencia self = ''semanal'' then
        (case dia_semana self of
           None \<Rightarrow> Inr None
         | Some k \<Rightarrow>
             if k = 0 then Inr None
             else (case date_plus_days hoy (dias_agregar k hoy) of
                     Inl e \<Rightarrow> Inl e
                   | Inr proxima \<Rightarrow> Inr (Some proxima)))
      else if frecuencia self = ''quincenal'' then
        (case dia_semana self of
           None \<Rightarrow> Inr None
         | Some k \<Rightarrow>
             if k = 0 then Inr None
             else (case date_plus_days hoy (dias_agregar k hoy) of
                     Inl e \<Rightarrow> Inl e
                   | Inr proxima \<Rightarrow>
                       (case ultima_generacion self of
                          None \<Rightarrow> Inr (Some proxima)
                        | Some u \<Rightarrow>
                            if days_between proxima u < 14
                            then (case date_plus_days proxima 7 of
                                    Inl e \<Rightarrow> Inl e
                                  | Inr p \<Rightarrow> Inr (Some p))
                            else Inr (Some proxima))))
      else if frecuencia self = ''mensual'' then
        (case dia_mes self of
           None \<Rightarrow> Inr None
         | Some k \<Rightarrow>
             if k = 0 then Inr None
             else (case fecha_este_mes (int k) hoy of
                     Inr proxima \<Rightarrow> Inr (Some proxima)
                   | Inl e \<Rightarrow>
                       if e = ValueError
                       then (case fecha_mes_siguiente (int k) hoy of
                               Inl e' \<Rightarrow> Inl e'
                             | Inr p \<Rightarrow> Inr (Some p))
                       else Inl e))
      else Inr None)"

definition prog_mensual_30 :: programacion_mantenimiento where
  "prog_mensual_30 = \<lparr>frecuencia = ''mensual'', dia_semana = None, dia_mes = Some 30,
     ultima_generacion = None\<rparr>"

definition prog_semanal_3 :: programacion_mantenimiento where
  "prog_semanal_3 = \<lparr>frecuencia = ''semanal'', dia_semana = Some 3, dia_mes = None,
     ultima_generacion = None\<rparr>"

text \<open>A date of the calendar, whatever its year.\<close>

definition calendar_date :: "date \<Rightarrow> bool" where
  "calendar_date x = valid_ymd (year x) (month x) (day x)"

text \<open>The date that the monthly branch is stated to return: day \<open>k\<close> of the current month
  when that date exists and is on or after \<open>hoy\<close>; otherwise day \<open>k\<close> of the following
  month, or the last day of that month when it has fewer than \<open>k\<close> days.\<close>

definition fecha_mensual :: "int \<Rightarrow> date \<Rightarrow> date" where
  "fecha_mensual k hoy =
     (if valid_ymd (year hoy) (month hoy) k \<and>
         date_le hoy \<lparr>year = year hoy, month = month hoy, day = k\<rparr>
      then \<lparr>year = year hoy, month = month hoy, day = k\<rparr>
      else (case mes_siguiente hoy of
              (m, a) \<Rightarrow> \<lparr>year = a, month = m, day = min k (days_in_month a m)\<rparr>))"

section \<open>Properties\<close>

text \<open>
  C8. \<open>SeguimientoIncidencia.notificar_propietario\<close> delivers nothing and modifies no
  state: it returns False when \<open>visible_para_propietario\<close> is False and True otherwise,
  and the follow-up note and the database are as they were.
\<close>

theorem C8_notificar_propietario:
  "notificar_propietario self d = (visible_para_propietario self, self, d)"
  by (simp add: notificar_propietario_def)

subsection \<open>Auxiliary facts\<close>

lemma date_le_iff: "date_le a b = (\<not> date_lt b a)"
  by (cases a; cases b) (auto simp: date_le_def date_lt_def)

lemma map_of_update_same: "map_of (AList.update k v t) k = Some v"
  by (simp add: update_conv')

subsection \<open>Numbers of a decimal field\<close>







subsection \<open>Fees\<close>

text \<open>With a \<open>Decimal\<close> surcharge, as every fee loaded from the database has it, the
  method returns \<open>valor_base * coeficiente_propiedad\<close> until the due date and that amount
  times \<open>1 + recargo_mora / 100\<close> after it; the base amount is the one
  \<open>Vivienda.calcular_valor_cuota\<close> computes. Before the due date the surcharge is not
  looked at.\<close>

lemma calcular_valor_con_mora_decimal:
  "(date_le hoy (fecha_vencimiento c) \<longrightarrow>
      calcular_valor_con_mora hoy c v = Inr (valor_base c * coeficiente_propiedad v)) \<and>
   (date_lt (fecha_vencimiento c) hoy \<and> recargo_mora c = Decimal r \<longrightarrow>
      calcular_valor_con_mora hoy c v =
        Inr (valor_base c * coeficiente_propiedad v * (1 + r / 100))) \<and>
   calcular_valor_vivienda c v = calcular_valor_cuota v c"
  by (simp add: calcular_valor_con_mora_def esta_vencida_def calcular_valor_vivienda_def
      calcular_valor_cuota_def date_le_iff Let_def algebra_simps)

lemma calcular_valor_con_mora_float:
  "date_lt (fecha_vencimiento c) hoy \<and> recargo_mora c = Float f \<longrightarrow>
     calcular_valor_con_mora hoy c v = Inl TypeError"
  by (simp add: calcular_valor_con_mora_def esta_vencida_def Let_def)

text \<open>
  C2. For every fee, \<open>calcular_valor_con_mora\<close> returns \<open>valor_base * coeficiente_propiedad\<close>
  when \<open>fecha_vencimiento\<close> is on or after the current date, and that amount times
  \<open>1 + recargo_mora / 100\<close> when it is strictly before. The code does not, for a fee that
  holds the default of \<open>recargo_mora\<close>: the fee of April is built without a surcharge, for
  200000 and due on 10 April 2024; for the house with coefficient 1/40 the method returns
  5000 on the due date, and on 11 April it raises \<open>TypeError\<close>, where a surcharge of zero
  would give 5000 again.
\<close>

theorem C2_recargo_por_defecto:
  "recargo_mora cuota_abril = Float 0 \<and>
   date_le \<lparr>year = 2024, month = 4, day = 10\<rparr> (fecha_vencimiento cuota_abril) \<and>
   calcular_valor_con_mora \<lparr>year = 2024, month = 4, day = 10\<rparr> cuota_abril casa_a1 = Inr 5000 \<and>
   date_lt (fecha_vencimiento cuota_abril) \<lparr>year = 2024, month = 4, day = 11\<rparr> \<and>
   valor_base cuota_abril * coeficiente_propiedad casa_a1 * (1 + 0 / 100) = 5000 \<and>
   calcular_valor_con_mora \<lparr>year = 2024, month = 4, day = 11\<rparr> cuota_abril casa_a1 =
     Inl TypeError"
  by (simp add: cuota_abril_def casa_a1_def calcular_valor_con_mora_def esta_vencida_def
      calcular_valor_vivienda_def date_le_def date_lt_def Let_def)

subsection \<open>The ledger\<close>





text \<open>What \<open>IngresoGasto.anular\<close> does, by the state and the amount of the object.\<close>

lemma anular_ya_anulado:
  "ingreso_gasto.estado self = ''anulado'' \<Longrightarrow> anular motivo self d = (Inr False, self, d)"
  by (simp add: anular_def)

lemma anular_monto_positivo:
  "ingreso_gasto.estado self \<noteq> ''anulado'' \<Longrightarrow> 0 < ingreso_gasto.monto self \<Longrightarrow>
   \<not> relacion_sin_guardar self \<Longrightarrow>
   fst (anular motivo self d) = Inr True \<and>
   ingreso_gasto.estado (fst (snd (anular motivo self d))) = ''anulado''"
  by (simp add: anular_def ingreso_gasto_save_def ingreso_gasto_super_save_def
      ingreso_gasto_model_save_def Let_def)

lemma anular_monto_no_positivo:
  "ingreso_gasto.estado self \<noteq> ''anulado'' \<Longrightarrow> ingreso_gasto.monto self \<le> 0 \<Longrightarrow>
   fst (anular motivo self d) = Inl ValueError \<and> snd (snd (anular motivo self d)) = d"
  by (simp add: anular_def ingreso_gasto_save_def Let_def)

text \<open>
  C7. For every transaction whose \<open>estado\<close> is not 'anulado', \<open>anular\<close> sets \<open>estado\<close> to
  'anulado', saves the record and returns True. The code does not: an expense that
  \<open>save\<close> has stored carries a negative \<open>monto\<close>, and the \<open>save\<close> inside \<open>anular\<close> raises
  \<open>ValueError\<close> on it. Here the expense \<open>gasto_nuevo\<close> is saved into an empty database
  and then annulled: the call raises, and the stored row keeps \<open>estado\<close> 'registrado'.
\<close>

theorem C7_anular_gasto_guardado:
  "(case ingreso_gasto_save gasto_nuevo db_vacia of
      (r, g, d) \<Rightarrow>
        r = Inr () \<and> ingreso_gasto.tipo g = ''gasto'' \<and> ingreso_gasto.monto g = - 100 \<and>
        ingreso_gasto.estado g = ''registrado'' \<and>
        objects_get (ingresos_gastos d) (ingreso_gasto.pk g) = Inr g \<and>
        anular None g d = (Inl ValueError, g\<lparr>ingreso_gasto.estado := ''anulado''\<rparr>, d))"
  by (simp add: ingreso_gasto_save_def ingreso_gasto_super_save_def
      ingreso_gasto_model_save_def gasto_nuevo_def db_vacia_def
      anular_def truthy_def Let_def save_pk_def next_pk_def objects_get_def)

subsection \<open>Reserve funds\<close>
















text \<open>Amounts that the columns do not hold exactly. A use of 0.004 takes 0.004 from the
  fund of 50 in the object; the fund is read back with 50.00 and the movement with 0.00.
  A contribution of 0.01 to the fund of 9999999999.99 leaves a row that cannot be read.\<close>

lemma fondo_lectura_redondeada:
  "(case registrar_uso (1 / 250) ''Poda'' fondo_imprevistos db_vacia of
      (r, self', d') \<Rightarrow>
        monto_actual self' = 50 - 1 / 250 \<and>
        fondo_reserva_get (fondo_reserva.pk self') d' = Inr (self'\<lparr>monto_actual := 50\<rparr>) \<and>
        (case r of
           Inl e \<Rightarrow> False
         | Inr mv \<Rightarrow>
             movimiento_fondo_get (movimiento_fondo.pk mv) d' =
               Inr (mv\<lparr>movimiento_fondo.monto := 0\<rparr>))) \<and>
   (case registrar_aporte (1 / 100) None fondo_lleno db_vacia of
      (r, self', d') \<Rightarrow>
        monto_actual self' = 10 ^ 10 \<and>
        fondo_reserva_get (fondo_reserva.pk self') d' = Inl InvalidOperation)"
proof -
  have q: "columna_12_2 (12499 / 250) = Inr 50" "columna_12_2 (1 / 250) = Inr 0"
    "columna_12_2 10000000000 = Inl InvalidOperation"
    by code_simp+
  show ?thesis
    by (simp add: registrar_uso_def registrar_aporte_def fondo_reserva_model_save_def
        movimiento_fondo_create_def Let_def fondo_imprevistos_def fondo_lleno_def db_vacia_def
        save_pk_def next_pk_def fondo_reserva_get_def movimiento_fondo_get_def objects_get_def q)
qed



subsection \<open>Common areas and reservations\<close>

text \<open>What the collision filter of \<open>esta_disponible\<close> computes: its third case holds for
  every row, so any confirmed reservation of the area on the date blocks the whole day.\<close>

lemma esta_disponible_codigo:
  "esta_disponible f hi hf self d =
     (requiere_reserva self \<and> esta_activa self \<and>
      (case horario_apertura self of None \<Rightarrow> True | Some ha \<Rightarrow> ha \<le> hi) \<and>
      (case horario_cierre self of None \<Rightarrow> True | Some hc \<Rightarrow> hf \<le> hc) \<and>
      (\<forall>r \<in> set (map snd (reservas d)).
         \<not> (Some (area r) = area_comun.pk self \<and> fecha_reserva r = f \<and>
            reserva.estado r = ''confirmada'')))"
  by (auto simp: esta_disponible_def caso_3_def filter_empty_conv split: option.splits)

text \<open>
  C1. \<open>esta_disponible\<close> returns True if and only if the area requires reservation and is
  active, the slot lies inside the opening hours, and no confirmed reservation of the area
  on the date overlaps the slot. The code does not: the hall \<open>salon\<close> requires
  reservation, is active and opens from 8:00 to 22:00; its only reservation on 4 May 2024
  is confirmed, from 10:00 to 11:00, and does not overlap the slot from 14:00 to 15:00;
  yet \<open>esta_disponible\<close> returns False for that slot.
\<close>

theorem C1_esta_disponible_sin_traslape:
  "requiere_reserva salon \<and> esta_activa salon \<and>
   horario_apertura salon = Some (hm 8 0) \<and> hm 8 0 \<le> hm 14 0 \<and>
   horario_cierre salon = Some (hm 22 0) \<and> hm 15 0 \<le> hm 22 0 \<and> hm 14 0 < hm 15 0 \<and>
   map snd (reservas db_salon) = [reserva_manana] \<and>
   \<not> traslapa (hm 14 0) (hm 15 0) reserva_manana \<and>
   esta_disponible \<lparr>year = 2024, month = 5, day = 4\<rparr> (hm 14 0) (hm 15 0) salon db_salon = False"
  by (simp add: salon_def db_salon_def db_vacia_def reserva_manana_def hm_def traslapa_def
      esta_disponible_def caso_1_def caso_2_def caso_3_def)

theorem C1_esta_disponible_sin_traslape_witness:
  "\<not> traslapa (hm 14 0) (hm 15 0) reserva_manana \<and>
   \<not> esta_disponible \<lparr>year = 2024, month = 5, day = 4\<rparr> (hm 14 0) (hm 15 0) salon db_salon"
  using C1_esta_disponible_sin_traslape by simp

lemma reserva_call_terminal:
  "estado_terminal (reserva.estado self) \<Longrightarrow> reserva_call now op self d = (Inr False, self, d)"
  by (cases op)
     (auto simp: estado_terminal_def reserva_cancelar_def confirmar_def marcar_completada_def
        marcar_no_asistio_def)

lemma reserva_calls_terminal:
  "estado_terminal (reserva.estado self) \<Longrightarrow> reserva_calls ops self d = (self, d)"
  by (induction ops) (auto simp: reserva_call_terminal)

text \<open>
  C10. The states 'cancelada', 'completada' and 'no_asistio' are absorbing: when the
  \<open>estado\<close> of a reservation is one of them, each of \<open>cancelar\<close>, \<open>confirmar\<close>,
  \<open>marcar_completada\<close> and \<open>marcar_no_asistio\<close> returns False and leaves the reservation
  and the database unchanged, and so does every sequence of such calls.
\<close>

theorem C10_estados_terminales:
  assumes "estado_terminal (reserva.estado self)"
  shows "reserva_cancelar now obs self d = (Inr False, self, d) \<and>
         confirmar now e obs self d = (Inr False, self, d) \<and>
         marcar_completada now self d = (Inr False, self, d) \<and>
         marcar_no_asistio now self d = (Inr False, self, d) \<and>
         reserva_calls ops self d = (self, d)"
  using assms reserva_call_terminal [OF assms, of now "Cancelar obs" d]
    reserva_call_terminal [OF assms, of now "Confirmar e obs" d]
    reserva_call_terminal [OF assms, of now MarcarCompletada d]
    reserva_call_terminal [OF assms, of now MarcarNoAsistio d]
    reserva_calls_terminal [OF assms, of ops d]
  by simp

theorem C10_estados_terminales_witness:
  "estado_terminal (reserva.estado reserva_cancelada) \<and>
   reserva_cancelar mediodia None reserva_cancelada db_salon = (Inr False, reserva_cancelada, db_salon) \<and>
   confirmar mediodia 3 None reserva_cancelada db_salon = (Inr False, reserva_cancelada, db_salon) \<and>
   marcar_completada mediodia reserva_cancelada db_salon = (Inr False, reserva_cancelada, db_salon) \<and>
   marcar_no_asistio mediodia reserva_cancelada db_salon = (Inr False, reserva_cancelada, db_salon) \<and>
   reserva_calls [(mediodia, Confirmar 3 None), (mediodia, MarcarCompletada)]
     reserva_cancelada db_salon = (reserva_cancelada, db_salon)"
proof -
  have t: "estado_terminal (reserva.estado reserva_cancelada)"
    by (simp add: estado_terminal_def reserva_cancelada_def)
  show ?thesis
    using t C10_estados_terminales [OF t, of mediodia None db_salon 3
        "[(mediodia, Confirmar 3 None), (mediodia, MarcarCompletada)]"]
    by simp
qed

subsection \<open>Maintenance\<close>

lemma iniciar_ok:
  assumes "incidencia_existe self d" and "mantenimiento.estado self = ''programado''"
  shows "case iniciar now self d of
           (r, self', d') \<Rightarrow>
             r = Inr True \<and> mantenimiento.estado self' = ''en_proceso'' \<and>
             fecha_inicio self' = Some (fst now) \<and>
             objects_get (mantenimientos d') (mantenimiento.pk self') = Inr self'"
  using assms
  by (auto simp: iniciar_def mantenimiento_save_def actualizar_incidencia_def
      incidencia_existe_def objects_get_def Let_def map_of_update_same split: option.splits)

lemma registrar_gasto_ok:
  "fecha_finalizacion self \<noteq> None \<Longrightarrow>
   fst (registrar_gasto self d) = Inr () \<and>
   mantenimientos (snd (registrar_gasto self d)) = mantenimientos d"
  by (auto simp: registrar_gasto_def ingreso_gasto_create_def ingreso_gasto_save_def
      ingreso_gasto_super_save_def ingreso_gasto_model_save_def Let_def split: option.splits)

lemma mantenimiento_save_ok:
  assumes "incidencia_existe self d"
  shows "case mantenimiento_save now self d of
           (r, self', d') \<Rightarrow>
             r = Inr () \<and> mantenimiento.estado self' = mantenimiento.estado self \<and>
             (mantenimiento.estado self = ''finalizado'' \<longrightarrow> fecha_finalizacion self \<noteq> None \<longrightarrow>
                fecha_finalizacion self' = fecha_finalizacion self) \<and>
             objects_get (mantenimientos d') (mantenimiento.pk self') = Inr self'"
  using assms
  by (auto simp: mantenimiento_save_def actualizar_incidencia_def
      incidencia_existe_def objects_get_def Let_def map_of_update_same split: option.splits)

lemma finalizar_ok:
  assumes "incidencia_existe self d"
    and "mantenimiento.estado self = ''programado'' \<or> mantenimiento.estado self = ''en_proceso''"
  shows "case finalizar now c obs self d of
           (r, self', d') \<Rightarrow>
             r = Inr True \<and> mantenimiento.estado self' = ''finalizado'' \<and>
             fecha_finalizacion self' = Some (fst now) \<and>
             objects_get (mantenimientos d') (mantenimiento.pk self') = Inr self'"
proof -
  define s3 where "s3 =
    (let self1 = self\<lparr>mantenimiento.estado := ''finalizado'', fecha_finalizacion := Some (fst now)\<rparr>;
         self2 = (case c of None \<Rightarrow> self1 | Some x \<Rightarrow> self1\<lparr>costo_final := Some x\<rparr>)
     in if truthy obs
        then self2\<lparr>mantenimiento.observaciones :=
               Some (or_empty (mantenimiento.observaciones self2) @ [CHR 0x0A] @
                     ''[FINALIZACI'' @ [CHR 0xD3] @ ''N] '' @ or_empty obs)\<rparr>
        else self2)"
  have e: "mantenimiento.estado s3 = ''finalizado''" and f: "fecha_finalizacion s3 = Some (fst now)"
    and i: "incidencia_existe s3 d"
    using assms(1) by (auto simp: s3_def Let_def incidencia_existe_def split: option.splits)
  obtain r s' d' where sv: "mantenimiento_save now s3 d = (r, s', d')"
    by (cases "mantenimiento_save now s3 d") auto
  from mantenimiento_save_ok [OF i, of now] sv e f
  have r: "r = Inr ()" and e': "mantenimiento.estado s' = ''finalizado''"
    and f': "fecha_finalizacion s' = Some (fst now)"
    and g: "objects_get (mantenimientos d') (mantenimiento.pk s') = Inr s'"
    by auto
  obtain r2 d2 where rg: "registrar_gasto s' d' = (r2, d2)"
    by (cases "registrar_gasto s' d'") auto
  from registrar_gasto_ok [of s' d'] f' rg
  have r2: "r2 = Inr ()" and m: "mantenimientos d2 = mantenimientos d'" by auto
  have "finalizar now c obs self d = (Inr True, s', d2)"
    using assms(2) sv r rg r2 by (auto simp: finalizar_def s3_def Let_def)
  then show ?thesis using e' f' g m by simp
qed

lemma cancelar_ok:
  assumes "incidencia_existe self d"
    and "mantenimiento.estado self \<noteq> ''finalizado''" and "mantenimiento.estado self \<noteq> ''cancelado''"
  shows "case mantenimiento_cancelar now motivo self d of
           (r, self', d') \<Rightarrow>
             r = Inr True \<and> mantenimiento.estado self' = ''cancelado'' \<and>
             objects_get (mantenimientos d') (mantenimiento.pk self') = Inr self'"
  using assms
  by (auto simp: mantenimiento_cancelar_def mantenimiento_save_def actualizar_incidencia_def
      incidencia_existe_def objects_get_def Let_def map_of_update_same split: option.splits)


text \<open>
  C4. With the incident of the maintenance stored (or none): \<open>iniciar\<close> succeeds (returns
  True, sets \<open>estado\<close> to 'en_proceso' and \<open>fecha_inicio\<close> to the current date, and stores
  the record) exactly when \<open>estado\<close> is 'programado'; \<open>finalizar\<close> succeeds (returns True,
  sets \<open>estado\<close> to 'finalizado' and \<open>fecha_finalizacion\<close> to the current date) exactly
  when \<open>estado\<close> is 'programado' or 'en_proceso'; \<open>cancelar\<close> succeeds exactly when
  \<open>estado\<close> is neither 'finalizado' nor 'cancelado'; in every other case the method
  returns False and leaves the record and the database unchanged.
\<close>

theorem C4_transiciones_mantenimiento:
  assumes "incidencia_existe self d"
  shows
    "((fst (iniciar now self d) = Inr True) = (mantenimiento.estado self = ''programado'')) \<and>
     (mantenimiento.estado self = ''programado'' \<longrightarrow>
        (case iniciar now self d of
           (r, self', d') \<Rightarrow>
             r = Inr True \<and> mantenimiento.estado self' = ''en_proceso'' \<and>
             fecha_inicio self' = Some (fst now) \<and>
             objects_get (mantenimientos d') (mantenimiento.pk self') = Inr self')) \<and>
     (mantenimiento.estado self \<noteq> ''programado'' \<longrightarrow> iniciar now self d = (Inr False, self, d)) \<and>
     ((fst (finalizar now c obs self d) = Inr True) =
        (mantenimiento.estado self = ''programado'' \<or> mantenimiento.estado self = ''en_proceso'')) \<and>
     (mantenimiento.estado self = ''programado'' \<or> mantenimiento.estado self = ''en_proceso'' \<longrightarrow>
        (case finalizar now c obs self d of
           (r, self', d') \<Rightarrow>
             r = Inr True \<and> mantenimiento.estado self' = ''finalizado'' \<and>
             fecha_finalizacion self' = Some (fst now) \<and>
             objects_get (mantenimientos d') (mantenimiento.pk self') = Inr self')) \<and>
     (mantenimiento.estado self \<noteq> ''programado'' \<and> mantenimiento.estado self \<noteq> ''en_proceso'' \<longrightarrow>
        finalizar now c obs self d = (Inr False, self, d)) \<and>
     ((fst (mantenimiento_cancelar now motivo self d) = Inr True) =
        (mantenimiento.estado self \<noteq> ''finalizado'' \<and> mantenimiento.estado self \<noteq> ''cancelado'')) \<and>
     (mantenimiento.estado self \<noteq> ''finalizado'' \<and> mantenimiento.estado self \<noteq> ''cancelado'' \<longrightarrow>
        (case mantenimiento_cancelar now motivo self d of
           (r, self', d') \<Rightarrow>
             r = Inr True \<and> mantenimiento.estado self' = ''cancelado'' \<and>
             objects_get (mantenimientos d') (mantenimiento.pk self') = Inr self')) \<and>
     (mantenimiento.estado self = ''finalizado'' \<or> mantenimiento.estado self = ''cancelado'' \<longrightarrow>
        mantenimiento_cancelar now motivo self d = (Inr False, self, d))"
proof -
  have i0: "mantenimiento.estado self \<noteq> ''programado'' \<Longrightarrow> iniciar now self d = (Inr False, self, d)"
    by (simp add: iniciar_def)
  have f0: "mantenimiento.estado self \<noteq> ''programado'' \<and> mantenimiento.estado self \<noteq> ''en_proceso''
      \<Longrightarrow> finalizar now c obs self d = (Inr False, self, d)"
    by (simp add: finalizar_def)
  have c0: "mantenimiento.estado self = ''finalizado'' \<or> mantenimiento.estado self = ''cancelado''
      \<Longrightarrow> mantenimiento_cancelar now motivo self d = (Inr False, self, d)"
    by (simp add: mantenimiento_cancelar_def)
  note i1 = iniciar_ok [OF assms, of now]
  note f1 = finalizar_ok [OF assms, of now c obs]
  note c1 = cancelar_ok [OF assms, of now motivo]
  have a: "(fst (iniciar now self d) = Inr True) = (mantenimiento.estado self = ''programado'')"
    using i0 i1 by (cases "mantenimiento.estado self = ''programado''") (auto split: prod.splits)
  have b: "(fst (finalizar now c obs self d) = Inr True) =
        (mantenimiento.estado self = ''programado'' \<or> mantenimiento.estado self = ''en_proceso'')"
    using f0 f1
    by (cases "mantenimiento.estado self = ''programado'' \<or> mantenimiento.estado self = ''en_proceso''")
       (auto split: prod.splits)
  have e: "(fst (mantenimiento_cancelar now motivo self d) = Inr True) =
        (mantenimiento.estado self \<noteq> ''finalizado'' \<and> mantenimiento.estado self \<noteq> ''cancelado'')"
    using c0 c1
    by (cases "mantenimiento.estado self = ''finalizado'' \<or> mantenimiento.estado self = ''cancelado''")
       (auto split: prod.splits)
  show ?thesis
    by (intro conjI impI a b e i0 f0 c0 i1 f1 c1) simp_all
qed

theorem C4_transiciones_mantenimiento_witness:
  "incidencia_existe poda db_poda \<and> mantenimiento.estado poda = ''programado'' \<and>
   fst (iniciar mediodia poda db_poda) = Inr True \<and>
   mantenimiento.estado (fst (snd (iniciar mediodia poda db_poda))) = ''en_proceso'' \<and>
   fst (finalizar mediodia (Some 80) None poda db_poda) = Inr True \<and>
   fecha_finalizacion (fst (snd (finalizar mediodia (Some 80) None poda db_poda))) =
     Some \<lparr>year = 2024, month = 5, day = 3\<rparr> \<and>
   fst (mantenimiento_cancelar mediodia None poda db_poda) = Inr True \<and>
   incidencia_existe (poda\<lparr>mantenimiento.estado := ''finalizado''\<rparr>) db_poda \<and>
   iniciar mediodia (poda\<lparr>mantenimiento.estado := ''finalizado''\<rparr>) db_poda =
     (Inr False, poda\<lparr>mantenimiento.estado := ''finalizado''\<rparr>, db_poda) \<and>
   mantenimiento_cancelar mediodia None (poda\<lparr>mantenimiento.estado := ''finalizado''\<rparr>) db_poda =
     (Inr False, poda\<lparr>mantenimiento.estado := ''finalizado''\<rparr>, db_poda)"
proof -
  have h1: "incidencia_existe poda db_poda"
    by (simp add: incidencia_existe_def poda_def db_poda_def db_vacia_def)
  have h2: "incidencia_existe (poda\<lparr>mantenimiento.estado := ''finalizado''\<rparr>) db_poda"
    by (simp add: incidencia_existe_def poda_def db_poda_def db_vacia_def)
  have e: "mantenimiento.estado poda = ''programado''" by (simp add: poda_def)
  show ?thesis
    using h1 h2 e
      C4_transiciones_mantenimiento [OF h1, of mediodia "Some 80" None None]
      C4_transiciones_mantenimiento [OF h2, of mediodia "Some 80" None None]
    by (auto simp: mediodia_def split: prod.splits)
qed

subsection \<open>Payments and the ledger\<close>

text \<open>The text of a fee cannot be built, so \<open>_registrar_ingreso\<close> raises on every
  payment and leaves the database as it was.\<close>

lemma cuota_str_raises: "cuota_str c = Inl TypeError"
  by (simp add: cuota_str_def get_nombre_mes_def)

lemma registrar_ingreso_raises:
  "fst (registrar_ingreso self d) \<noteq> Inr () \<and> snd (registrar_ingreso self d) = d"
  by (simp add: registrar_ingreso_def cuota_str_raises split: sum.splits)

text \<open>
  C3. Saving a payment whose \<open>estado\<close> is 'confirmado' and that was not confirmed before
  creates exactly one ledger row of \<open>tipo\<close> 'ingreso' for it; saving a payment that was
  confirmed and is now 'rechazado' sets every 'ingreso' row linked to it to 'anulado'.
  The code does neither. The payment of March, stored as 'registrado' with an empty
  ledger, is loaded, set to 'confirmado' and saved: the save raises \<open>TypeError\<close> and the
  database is unchanged, so no ledger row exists and the payment is not stored. The same
  payment, stored as 'confirmado' with its ledger row, is loaded, set to 'rechazado' and
  saved: the save succeeds and the ledger row is still 'registrado'.
\<close>

theorem C3_pago_save_libro:
  "pago_get 1 db_pago_registrado = Inr (pago_cargado ''registrado'') \<and>
   ingresos_gastos db_pago_registrado = [] \<and>
   pago_save (pago_cargado ''confirmado'') db_pago_registrado =
     (Inl TypeError, pago_cargado ''confirmado'', db_pago_registrado) \<and>
   pago_get 1 db_pago_confirmado = Inr (pago_cargado ''confirmado'') \<and>
   ingresos_gastos db_pago_confirmado = [(1, ingreso_marzo)] \<and>
   pago ingreso_marzo = pago_administracion.pk (pago_cargado ''rechazado'') \<and>
   ingreso_gasto.tipo ingreso_marzo = ''ingreso'' \<and>
   ingreso_gasto.estado ingreso_marzo = ''registrado'' \<and>
   fst (pago_save (pago_cargado ''rechazado'') db_pago_confirmado) = Inr () \<and>
   ingresos_gastos (snd (snd (pago_save (pago_cargado ''rechazado'') db_pago_confirmado))) =
     [(1, ingreso_marzo)]"
proof -
  have q: "columna_12_2 5000 = Inr 5000" by code_simp
  show ?thesis
    by (simp add: pago_get_def db_pago_registrado_def db_pago_confirmado_def db_vacia_def
        objects_get_def pago_marzo_def pago_cargado_def pago_administracion.extend_def
        pago_inst.fields_def pago_save_def valor_inicial_def registrar_ingreso_def
        cuota_str_raises casa_a1_def cuota_marzo_def iv_estado_def pago_model_save_def Let_def
        ingreso_marzo_def save_pk_def q)
qed

subsection \<open>Recurring maintenance: the calendar\<close>

lemma days_before_month_Suc:
  "1 \<le> m \<Longrightarrow> days_before_month y (m + 1) = days_before_month y m + days_in_month y m"
  by (simp add: days_before_month_def upto_rec2)

lemma days_before_month_1: "days_before_month y 1 = 0"
  by (simp add: days_before_month_def)

lemma div_pred:
  fixes y n :: int
  assumes "0 < n"
  shows "y div n = (y - 1) div n + (if y mod n = 0 then 1 else 0)"
proof (cases "y mod n = 0")
  case True
  have "y - 1 = n * (y div n - 1) + (n - 1)"
    using True mult_div_mod_eq [of n y] by (simp add: algebra_simps)
  then have "(y - 1) div n = y div n - 1"
    by (rule int_div_pos_eq) (use assms in simp_all)
  with True show ?thesis by simp
next
  case False
  have r: "0 \<le> y mod n" "y mod n < n" using assms by simp_all
  have "y - 1 = n * (y div n) + (y mod n - 1)"
    using mult_div_mod_eq [of n y] by (simp add: algebra_simps)
  then have "(y - 1) div n = y div n"
    by (rule int_div_pos_eq) (use r False in simp_all)
  with False show ?thesis by simp
qed

lemma upto_1_11: "[1..11::int] = [1, 2, 3, 4, 5, 6, 7, 8, 9, 10, 11]"
  by code_simp

lemma days_before_month_12:
  "days_before_month y 12 = (if is_leap y then 335 else 334)"
  by (simp add: days_before_month_def days_in_month_def upto_1_11)


lemma days_before_year_Suc:
  "days_before_year (y + 1) = days_before_year y + (if is_leap y then 366 else 365)"
proof -
  define A B C where "A = (y - 1) div 4" and "B = (y - 1) div 100" and "C = (y - 1) div 400"
  have a: "y div 4 = A + (if y mod 4 = 0 then 1 else 0)"
    unfolding A_def by (rule div_pred) simp
  have b: "y div 100 = B + (if y mod 100 = 0 then 1 else 0)"
    unfolding B_def by (rule div_pred) simp
  have c: "y div 400 = C + (if y mod 400 = 0 then 1 else 0)"
    unfolding C_def by (rule div_pred) simp
  have h1: "y mod 100 = 0" if "y mod 400 = 0"
  proof -
    have "(400::int) dvd y" using that by (simp add: mod_eq_0_iff_dvd)
    moreover have "(100::int) dvd 400" by simp
    ultimately have "(100::int) dvd y" by (rule dvd_trans [rotated])
    then show ?thesis by (simp add: mod_eq_0_iff_dvd)
  qed
  have h2: "y mod 4 = 0" if "y mod 100 = 0"
  proof -
    have "(100::int) dvd y" using that by (simp add: mod_eq_0_iff_dvd)
    moreover have "(4::int) dvd 100" by simp
    ultimately have "(4::int) dvd y" by (rule dvd_trans [rotated])
    then show ?thesis by (simp add: mod_eq_0_iff_dvd)
  qed
  have d: "days_before_year (y + 1) = y * 365 + y div 4 - y div 100 + y div 400"
    by (simp add: days_before_year_def)
  have e: "days_before_year y = (y - 1) * 365 + A - B + C"
    by (simp only: days_before_year_def A_def B_def C_def)
  have n4: ?thesis if "y mod 4 \<noteq> 0" "y mod 100 \<noteq> 0" "y mod 400 \<noteq> 0"
  proof -
    have "\<not> is_leap y" using that by (simp only: is_leap_def) simp
    moreover have "y div 4 = A" "y div 100 = B" "y div 400 = C"
      using a b c that by simp_all
    ultimately show ?thesis by (simp only: d e if_False) (simp add: algebra_simps)
  qed
  have n100: ?thesis if "y mod 4 = 0" "y mod 100 \<noteq> 0" "y mod 400 \<noteq> 0"
  proof -
    have "is_leap y" using that by (simp only: is_leap_def) simp
    moreover have "y div 4 = A + 1" "y div 100 = B" "y div 400 = C"
      using a b c that by simp_all
    ultimately show ?thesis by (simp only: d e if_True) (simp add: algebra_simps)
  qed
  have n400: ?thesis if "y mod 4 = 0" "y mod 100 = 0" "y mod 400 \<noteq> 0"
  proof -
    have "\<not> is_leap y" using that by (simp only: is_leap_def) simp
    moreover have "y div 4 = A + 1" "y div 100 = B + 1" "y div 400 = C"
      using a b c that by simp_all
    ultimately show ?thesis by (simp only: d e if_False) (simp add: algebra_simps)
  qed
  have y400: ?thesis if "y mod 4 = 0" "y mod 100 = 0" "y mod 400 = 0"
  proof -
    have "is_leap y" using that by (simp only: is_leap_def) simp
    moreover have "y div 4 = A + 1" "y div 100 = B + 1" "y div 400 = C + 1"
      using a b c that by simp_all
    ultimately show ?thesis by (simp only: d e if_True) (simp add: algebra_simps)
  qed
  show ?thesis
  proof (cases "y mod 400 = 0")
    case True
    from True have q: "y mod 100 = 0" by (rule h1)
    from q have p: "y mod 4 = 0" by (rule h2)
    from p q True show ?thesis by (rule y400)
  next
    case f400: False
    show ?thesis
    proof (cases "y mod 100 = 0")
      case True
      from True have p: "y mod 4 = 0" by (rule h2)
      from p True f400 show ?thesis by (rule n400)
    next
      case f100: False
      show ?thesis
      proof (cases "y mod 4 = 0")
        case True
        from True f100 f400 show ?thesis by (rule n100)
      next
        case False
        from False f100 f400 show ?thesis by (rule n4)
      qed
    qed
  qed
qed


lemma days_in_month_bounds: "28 \<le> days_in_month y m \<and> days_in_month y m \<le> 31"
  by (simp add: days_in_month_def)

lemma days_in_month_12: "days_in_month y 12 = 31"
  by (simp add: days_in_month_def)

lemma days_in_month_1: "days_in_month y 1 = 31"
  by (simp add: days_in_month_def)

lemma toordinal_next_day:
  assumes "calendar_date x"
  shows "toordinal (next_day x) = toordinal x + 1"
proof -
  from assms have m: "1 \<le> month x" "month x \<le> 12" and d: "day x \<le> days_in_month (year x) (month x)"
    by (simp_all add: calendar_date_def valid_ymd_def)
  show ?thesis
  proof (cases "day x < days_in_month (year x) (month x)")
    case True
    then show ?thesis by (simp add: next_day_def toordinal_def)
  next
    case last: False
    with d have eq: "day x = days_in_month (year x) (month x)" by simp
    show ?thesis
    proof (cases "month x < 12")
      case True
      with last show ?thesis
        using days_before_month_Suc [OF m(1), of "year x"] eq
        by (simp add: next_day_def toordinal_def)
    next
      case False
      with m have m12: "month x = 12" by simp
      with last False eq show ?thesis
        by (simp add: next_day_def toordinal_def days_before_year_Suc days_before_month_12
            days_before_month_1 days_in_month_12)
    qed
  qed
qed

lemma valid_next_day: "calendar_date x \<Longrightarrow> calendar_date (next_day x)"
  using days_in_month_bounds [of "year x" "month x + 1"] days_in_month_bounds [of "year x + 1" 1]
  by (auto simp: calendar_date_def valid_ymd_def next_day_def)

lemma valid_add_days: "calendar_date x \<Longrightarrow> calendar_date (add_days x n)"
  by (induction n) (simp_all add: add_days_def valid_next_day)

lemma toordinal_add_days: "calendar_date x \<Longrightarrow> toordinal (add_days x n) = toordinal x + int n"
proof (induction n)
  case 0
  then show ?case by (simp add: add_days_def)
next
  case (Suc n)
  have "add_days x (Suc n) = next_day (add_days x n)" by (simp add: add_days_def)
  then show ?case
    using Suc toordinal_next_day [OF valid_add_days [OF Suc.prems, of n]] by simp
qed

lemma weekday_add_days: "calendar_date x \<Longrightarrow> weekday (add_days x n) = (weekday x + int n) mod 7"
  by (simp add: weekday_def toordinal_add_days mod_simps algebra_simps)

lemma year_add_days:
  assumes "calendar_date x" and "n \<le> 30"
  shows "year (add_days x n) = year x \<or>
         (year (add_days x n) = year x + 1 \<and> month (add_days x n) = 1 \<and>
          day (add_days x n) \<le> int n)"
  using assms(2)
proof (induction n)
  case 0
  then show ?case by (simp add: add_days_def)
next
  case (Suc n)
  let ?r = "add_days x n"
  have s: "add_days x (Suc n) = next_day ?r" by (simp add: add_days_def)
  from Suc have ih: "year ?r = year x \<or> (year ?r = year x + 1 \<and> month ?r = 1 \<and> day ?r \<le> int n)"
    by simp
  then show ?case
  proof
    assume "year ?r = year x"
    then show ?thesis unfolding s by (simp add: next_day_def)
  next
    assume a: "year ?r = year x + 1 \<and> month ?r = 1 \<and> day ?r \<le> int n"
    with Suc.prems have "day ?r < days_in_month (year ?r) (month ?r)"
      by (simp add: days_in_month_1)
    with a show ?thesis unfolding s by (simp add: next_day_def)
  qed
qed


lemma valid_date_calendar: "valid_date x \<Longrightarrow> calendar_date x"
  by (simp add: valid_date_def calendar_date_def)

lemma dias_agregar_le: "dias_agregar k hoy \<le> 6"
proof -
  have "(int k - weekday hoy - 1) mod 7 < 7" by simp
  then show ?thesis unfolding dias_agregar_def by linarith
qed

lemma int_dias_agregar: "int (dias_agregar k hoy) = (int k - weekday hoy - 1) mod 7"
  by (simp add: dias_agregar_def)

lemma date_plus_days_ok:
  assumes "valid_date hoy" and "year hoy < 9999" and "n \<le> 30"
  shows "date_plus_days hoy n = Inr (add_days hoy n)"
  using year_add_days [OF valid_date_calendar [OF assms(1)] assms(3)] assms(2)
  by (auto simp: date_plus_days_def Let_def)

lemma weekday_proxima:
  assumes "valid_date hoy"
  shows "weekday (add_days hoy (dias_agregar k hoy)) = (int k - 1) mod 7"
proof -
  have "weekday (add_days hoy (dias_agregar k hoy)) =
        (weekday hoy + (int k - weekday hoy - 1) mod 7) mod 7"
    by (simp add: weekday_add_days [OF valid_date_calendar [OF assms]] int_dias_agregar)
  also have "\<dots> = (weekday hoy + (int k - weekday hoy - 1)) mod 7"
    by (simp add: mod_add_right_eq)
  finally show ?thesis by (simp add: algebra_simps)
qed

lemma weekday_unique:
  assumes "valid_date hoy" and "i \<le> 6" and "j \<le> 6"
    and "weekday (add_days hoy i) = weekday (add_days hoy j)"
  shows "i = j"
proof -
  have "(weekday hoy + int i) mod 7 = (weekday hoy + int j) mod 7"
    using assms(4) by (simp add: weekday_add_days [OF valid_date_calendar [OF assms(1)]])
  then have "7 dvd (weekday hoy + int i) - (weekday hoy + int j)"
    by (simp only: mod_eq_dvd_iff)
  then have "7 dvd int i - int j" by simp
  moreover have "- 6 \<le> int i - int j" "int i - int j \<le> 6" using assms(2,3) by simp_all
  ultimately have "int i - int j = 0" by presburger
  then show ?thesis by simp
qed


lemma mes_siguiente_ok:
  assumes "valid_date hoy" and "year hoy < 9999"
  shows "1 \<le> fst (mes_siguiente hoy) \<and> fst (mes_siguiente hoy) \<le> 12 \<and>
         1 \<le> snd (mes_siguiente hoy) \<and> snd (mes_siguiente hoy) \<le> 9999"
  using assms by (simp add: mes_siguiente_def valid_date_def valid_ymd_def)

lemma fecha_mes_siguiente_ok:
  assumes "valid_date hoy" and "year hoy < 9999" and "1 \<le> k"
  shows "fecha_mes_siguiente k hoy =
           Inr \<lparr>year = snd (mes_siguiente hoy), month = fst (mes_siguiente hoy),
                day = min k (days_in_month (snd (mes_siguiente hoy)) (fst (mes_siguiente hoy)))\<rparr>"
proof -
  obtain m a where ma: "mes_siguiente hoy = (m, a)" by (cases "mes_siguiente hoy")
  from mes_siguiente_ok [OF assms(1,2)] ma
  have r: "1 \<le> m" "m \<le> 12" "1 \<le> a" "a \<le> 9999" by simp_all
  from days_in_month_bounds [of a m]
  have b: "28 \<le> days_in_month a m" by simp
  show ?thesis
    using r b assms(3)
    by (simp add: fecha_mes_siguiente_def ma ultimo_dia_mes_def date_new_def valid_ymd_def
        min_def)
qed

lemma date_new_next_month:
  "(if month hoy = 12 then date_new (year hoy + 1) 1 k else date_new (year hoy) (month hoy + 1) k) =
   date_new (snd (mes_siguiente hoy)) (fst (mes_siguiente hoy)) k"
  by (simp add: mes_siguiente_def)

lemma mensual_ok:
  assumes v: "valid_date hoy" and y: "year hoy < 9999" and k: "1 \<le> k"
  shows "(case fecha_este_mes k hoy of
            Inr proxima \<Rightarrow> Inr (Some proxima)
          | Inl e \<Rightarrow>
              if e = ValueError
              then (case fecha_mes_siguiente k hoy of
                      Inl e' \<Rightarrow> Inl e'
                    | Inr p \<Rightarrow> Inr (Some p))
              else Inl e) = Inr (Some (fecha_mensual k hoy))"
proof -
  obtain m a where ma: "mes_siguiente hoy = (m, a)" by (cases "mes_siguiente hoy")
  from mes_siguiente_ok [OF v y] ma
  have r: "1 \<le> m" "m \<le> 12" "1 \<le> a" "a \<le> 9999" by simp_all
  have yy: "1 \<le> year hoy" "year hoy \<le> 9999" using v by (simp_all add: valid_date_def)
  have sig: "fecha_mes_siguiente k hoy = Inr \<lparr>year = a, month = m, day = min k (days_in_month a m)\<rparr>"
    using fecha_mes_siguiente_ok [OF v y k] ma by simp
  have le: "date_le hoy \<lparr>year = year hoy, month = month hoy, day = k\<rparr> = (day hoy \<le> k)"
    by (auto simp: date_le_iff date_lt_def)
  show ?thesis
  proof (cases "valid_ymd (year hoy) (month hoy) k")
    case False
    then have "fecha_este_mes k hoy = Inl ValueError"
      by (simp add: fecha_este_mes_def date_new_def)
    with False sig ma show ?thesis by (simp add: fecha_mensual_def)
  next
    case True
    then have dn: "date_new (year hoy) (month hoy) k = Inr \<lparr>year = year hoy, month = month hoy, day = k\<rparr>"
      using yy by (simp add: date_new_def)
    show ?thesis
    proof (cases "day hoy \<le> k")
      case True
      then have "fecha_este_mes k hoy = Inr \<lparr>year = year hoy, month = month hoy, day = k\<rparr>"
        by (simp add: fecha_este_mes_def dn date_lt_def)
      with True \<open>valid_ymd (year hoy) (month hoy) k\<close> show ?thesis
        by (simp add: fecha_mensual_def le)
    next
      case False
      then have e: "fecha_este_mes k hoy = date_new a m k"
        using date_new_next_month [of hoy k] ma
        by (simp add: fecha_este_mes_def dn date_lt_def)
      have f: "fecha_mensual k hoy = \<lparr>year = a, month = m, day = min k (days_in_month a m)\<rparr>"
        using False by (simp add: fecha_mensual_def le ma)
      show ?thesis
      proof (cases "k \<le> days_in_month a m")
        case True
        then show ?thesis
          using r k by (simp add: e f date_new_def valid_ymd_def min_def)
      next
        case False
        then have "date_new a m k = Inl ValueError" by (simp add: date_new_def valid_ymd_def)
        then show ?thesis by (simp add: e f sig)
      qed
    qed
  qed
qed


text \<open>
  C5 (as amended). For a current date \<open>hoy\<close> before the year 9999,
  \<open>_calcular_proxima_fecha\<close> returns: \<open>hoy\<close> for \<open>frecuencia\<close> 'diaria'; for 'semanal' with
  \<open>dia_semana\<close> set and not 0, the date \<open>n\<close> days after \<open>hoy\<close> for the only \<open>n\<close> from 0 to 6
  whose date has the weekday index \<open>(dia_semana - 1) mod 7\<close>; for 'mensual' with \<open>dia_mes\<close>
  set and not 0, day \<open>dia_mes\<close> of the current month when that date exists and is on or
  after \<open>hoy\<close>, and otherwise day \<open>dia_mes\<close> of the following month, or the last day of
  that month when it has fewer days; and \<open>None\<close> for 'semanal' or 'quincenal' without
  \<open>dia_semana\<close> (null or 0), for 'mensual' without \<open>dia_mes\<close> (null or 0), and for
  'trimestral', 'semestral' and 'anual'.
\<close>

theorem C5_calcular_proxima_fecha:
  assumes "valid_date hoy" and "year hoy < 9999"
  shows
    "(frecuencia self = ''diaria'' \<longrightarrow> calcular_proxima_fecha hoy self = Inr (Some hoy)) \<and>
     (frecuencia self = ''semanal'' \<longrightarrow>
        (\<forall>k. dia_semana self = Some k \<and> k \<noteq> 0 \<longrightarrow>
           calcular_proxima_fecha hoy self = Inr (Some (add_days hoy (dias_agregar k hoy))) \<and>
           dias_agregar k hoy \<le> 6 \<and>
           days_between (add_days hoy (dias_agregar k hoy)) hoy = int (dias_agregar k hoy) \<and>
           weekday (add_days hoy (dias_agregar k hoy)) = (int k - 1) mod 7 \<and>
           (\<forall>j. j \<le> 6 \<and> weekday (add_days hoy j) = (int k - 1) mod 7 \<longrightarrow>
                j = dias_agregar k hoy))) \<and>
     (frecuencia self = ''mensual'' \<longrightarrow>
        (\<forall>k. dia_mes self = Some k \<and> k \<noteq> 0 \<longrightarrow>
           calcular_proxima_fecha hoy self = Inr (Some (fecha_mensual (int k) hoy)))) \<and>
     ((frecuencia self = ''semanal'' \<or> frecuencia self = ''quincenal'') \<and>
      (dia_semana self = None \<or> dia_semana self = Some 0) \<longrightarrow>
        calcular_proxima_fecha hoy self = Inr None) \<and>
     (frecuencia self = ''mensual'' \<and> (dia_mes self = None \<or> dia_mes self = Some 0) \<longrightarrow>
        calcular_proxima_fecha hoy self = Inr None) \<and>
     (frecuencia self = ''trimestral'' \<or> frecuencia self = ''semestral'' \<or>
      frecuencia self = ''anual'' \<longrightarrow>
        calcular_proxima_fecha hoy self = Inr None)"
proof -
  have diaria: "calcular_proxima_fecha hoy self = Inr (Some hoy)" if "frecuencia self = ''diaria''"
    using that by (simp add: calcular_proxima_fecha_def)
  have semanal:
    "calcular_proxima_fecha hoy self = Inr (Some (add_days hoy (dias_agregar k hoy))) \<and>
     dias_agregar k hoy \<le> 6 \<and>
     days_between (add_days hoy (dias_agregar k hoy)) hoy = int (dias_agregar k hoy) \<and>
     weekday (add_days hoy (dias_agregar k hoy)) = (int k - 1) mod 7 \<and>
     (\<forall>j. j \<le> 6 \<and> weekday (add_days hoy j) = (int k - 1) mod 7 \<longrightarrow> j = dias_agregar k hoy)"
    if "frecuencia self = ''semanal''" and "dia_semana self = Some k \<and> k \<noteq> 0" for k
  proof -
    have n: "dias_agregar k hoy \<le> 6" by (rule dias_agregar_le)
    then have "dias_agregar k hoy \<le> 30" by simp
    from date_plus_days_ok [OF assms this] that
    have 1: "calcular_proxima_fecha hoy self = Inr (Some (add_days hoy (dias_agregar k hoy)))"
      by (simp add: calcular_proxima_fecha_def)
    have 2: "days_between (add_days hoy (dias_agregar k hoy)) hoy = int (dias_agregar k hoy)"
      by (simp add: days_between_def toordinal_add_days [OF valid_date_calendar [OF assms(1)]])
    have 3: "weekday (add_days hoy (dias_agregar k hoy)) = (int k - 1) mod 7"
      by (rule weekday_proxima [OF assms(1)])
    have 4: "j = dias_agregar k hoy"
      if "j \<le> 6 \<and> weekday (add_days hoy j) = (int k - 1) mod 7" for j
    proof -
      from that 3 have "weekday (add_days hoy j) = weekday (add_days hoy (dias_agregar k hoy))"
        by simp
      with that n show ?thesis by (intro weekday_unique [OF assms(1)]) simp_all
    qed
    from 1 n 2 3 4 show ?thesis by (intro conjI allI impI)
  qed
  have mensual: "calcular_proxima_fecha hoy self = Inr (Some (fecha_mensual (int k) hoy))"
    if "frecuencia self = ''mensual''" and "dia_mes self = Some k \<and> k \<noteq> 0" for k
  proof -
    from that have "1 \<le> int k" by simp
    from mensual_ok [OF assms this] that show ?thesis
      by (simp add: calcular_proxima_fecha_def)
  qed
  have sin_dia: "calcular_proxima_fecha hoy self = Inr None"
    if "(frecuencia self = ''semanal'' \<or> frecuencia self = ''quincenal'') \<and>
        (dia_semana self = None \<or> dia_semana self = Some 0)"
    using that by (auto simp: calcular_proxima_fecha_def)
  have sin_mes: "calcular_proxima_fecha hoy self = Inr None"
    if "frecuencia self = ''mensual'' \<and> (dia_mes self = None \<or> dia_mes self = Some 0)"
    using that by (auto simp: calcular_proxima_fecha_def)
  have otras: "calcular_proxima_fecha hoy self = Inr None"
    if "frecuencia self = ''trimestral'' \<or> frecuencia self = ''semestral'' \<or>
        frecuencia self = ''anual''"
    using that by (auto simp: calcular_proxima_fecha_def)
  show ?thesis
    apply (intro conjI)
    subgoal by (rule impI) (rule diaria)
    subgoal by (intro impI allI) (rule semanal, assumption+)
    subgoal by (intro impI allI) (rule mensual, assumption+)
    subgoal by (rule impI) (rule sin_dia)
    subgoal by (rule impI) (rule sin_mes)
    subgoal by (rule impI) (rule otras)
    done
qed

text \<open>
  C5 as stated fails: on 31 January 2023 the monthly schedule for day 30 does not get a
  date with day 30, neither in January (30 January is past) nor in February (which has
  no day 30); the method returns 28 February 2023.
\<close>

theorem C5_calcular_proxima_fecha_counterexample:
  "calcular_proxima_fecha \<lparr>year = 2023, month = 1, day = 31\<rparr> prog_mensual_30 =
     Inr (Some \<lparr>year = 2023, month = 2, day = 28\<rparr>) \<and>
   calcular_proxima_fecha \<lparr>year = 2023, month = 1, day = 31\<rparr> prog_mensual_30 \<noteq>
     Inr (Some \<lparr>year = 2023, month = 1, day = 30\<rparr>) \<and>
   calcular_proxima_fecha \<lparr>year = 2023, month = 1, day = 31\<rparr> prog_mensual_30 \<noteq>
     Inr (Some \<lparr>year = 2023, month = 2, day = 30\<rparr>)"
  by (simp add: calcular_proxima_fecha_def prog_mensual_30_def fecha_este_mes_def
      fecha_mes_siguiente_def mes_siguiente_def ultimo_dia_mes_def date_new_def valid_ymd_def
      days_in_month_def is_leap_def date_lt_def)

text \<open>Friday 3 May 2024: the weekly schedule for day 3 (Wednesday) gets 8 May, and the
  monthly schedule for day 30 gets 30 May.\<close>

theorem C5_calcular_proxima_fecha_witness:
  "valid_date \<lparr>year = 2024, month = 5, day = 3\<rparr> \<and>
   year \<lparr>year = 2024, month = 5, day = 3\<rparr> < 9999 \<and>
   weekday \<lparr>year = 2024, month = 5, day = 3\<rparr> = 4 \<and>
   calcular_proxima_fecha \<lparr>year = 2024, month = 5, day = 3\<rparr> prog_semanal_3 =
     Inr (Some \<lparr>year = 2024, month = 5, day = 8\<rparr>) \<and>
   weekday \<lparr>year = 2024, month = 5, day = 8\<rparr> = 2 \<and>
   calcular_proxima_fecha \<lparr>year = 2024, month = 5, day = 3\<rparr> prog_mensual_30 =
     Inr (Some \<lparr>year = 2024, month = 5, day = 30\<rparr>)"
proof -
  let ?hoy = "\<lparr>year = 2024, month = 5, day = 3\<rparr>"
  have v: "valid_date ?hoy"
    by (simp add: valid_date_def valid_ymd_def days_in_month_def)
  have y: "year ?hoy < 9999" by simp
  have w: "weekday ?hoy = 4" by code_simp
  have a: "add_days ?hoy (dias_agregar 3 ?hoy) = \<lparr>year = 2024, month = 5, day = 8\<rparr>"
    by code_simp
  have m: "fecha_mensual 30 ?hoy = \<lparr>year = 2024, month = 5, day = 30\<rparr>"
    by code_simp
  from C5_calcular_proxima_fecha [OF v y, of prog_semanal_3]
  have s: "calcular_proxima_fecha ?hoy prog_semanal_3 = Inr (Some (add_days ?hoy (dias_agregar 3 ?hoy))) \<and>
           weekday (add_days ?hoy (dias_agregar 3 ?hoy)) = (int 3 - 1) mod 7"
    by (simp add: prog_semanal_3_def)
  from C5_calcular_proxima_fecha [OF v y, of prog_mensual_30]
  have t: "calcular_proxima_fecha ?hoy prog_mensual_30 = Inr (Some (fecha_mensual (int 30) ?hoy))"
    by (simp add: prog_mensual_30_def)
  from v y w s t show ?thesis by (simp add: a m)
qed

end
